theory Spec2Isabelle
  imports Main "HOL-Library.Word" "HOL-Library.Multiset" "HOL-Library.AList"
begin

unbundle bit_operations_syntax

section \<open>Strings and paths\<close>

text \<open>
  File contents, file names and digests are all \<^typ>\<open>string\<close>: one \<^typ>\<open>char\<close> per byte.
  This is what \<^verbatim>\<open>buffer.toString('binary')\<close> produces in \<^verbatim>\<open>checkPatternSignatures\<close>,
  and on ASCII it coincides with the JavaScript strings used for paths.
\<close>

definition lower_char :: "char \<Rightarrow> char" where
  "lower_char c =
     (case map_of (zip ''ABCDEFGHIJKLMNOPQRSTUVWXYZ'' ''abcdefghijklmnopqrstuvwxyz'') c of
        Some d \<Rightarrow> d
      | None \<Rightarrow> c)"

definition toLowerCase :: "string \<Rightarrow> string" where
  "toLowerCase s = map lower_char s"

definition startsWith :: "string \<Rightarrow> string \<Rightarrow> bool" where
  "startsWith s p = (take (length p) s = p)"

definition endsWith :: "string \<Rightarrow> string \<Rightarrow> bool" where
  "endsWith s p = (length p \<le> length s \<and> drop (length s - length p) s = p)"

fun includes_str :: "string \<Rightarrow> string \<Rightarrow> bool" where
  "includes_str [] p = (p = [])"
| "includes_str (c # cs) p = (startsWith (c # cs) p \<or> includes_str cs p)"

definition is_digit :: "char \<Rightarrow> bool" where
  "is_digit c = (c \<in> set ''0123456789'')"

definition is_hex_char :: "char \<Rightarrow> bool" where
  "is_hex_char c = (c \<in> set ''0123456789abcdefABCDEF'')"

definition is_word_char :: "char \<Rightarrow> bool" where
  "is_word_char c =
     (c \<in> set ''abcdefghijklmnopqrstuvwxyzABCDEFGHIJKLMNOPQRSTUVWXYZ0123456789_'')"

definition is_line_terminator :: "char \<Rightarrow> bool" where
  "is_line_terminator c = (c = CHR 0x0A \<or> c = CHR 0x0D)"

text \<open>Decimal rendering of a number, as template literals and \<^verbatim>\<open>String(n)\<close> produce it.\<close>

definition digit_char :: "nat \<Rightarrow> char" where
  "digit_char d = ''0123456789'' ! (d mod 10)"

function dec :: "nat \<Rightarrow> string" where
  "dec n = (if n < 10 then [digit_char n] else dec (n div 10) @ [digit_char (n mod 10)])"
  by pat_completeness auto
termination
  by (relation "measure (\<lambda>n. n)") auto

declare dec.simps [simp del]

text \<open>
  Node's \<^verbatim>\<open>path\<close> module, POSIX flavour: \<^verbatim>\<open>basename\<close>, \<^verbatim>\<open>extname\<close> and \<^verbatim>\<open>dirname\<close>
  follow the library's scans from the right end of the string. \<^verbatim>\<open>path.join\<close> is only ever
  applied to a directory and a single file name here; the normalisation of \<^verbatim>\<open>.\<close>, \<^verbatim>\<open>..\<close>
  and repeated separators that the library also performs is not modelled.
\<close>

definition is_sep :: "char \<Rightarrow> bool" where
  "is_sep c = (c = CHR ''/'')"

definition basename :: "string \<Rightarrow> string" where
  "basename p = rev (takeWhile (\<lambda>c. \<not> is_sep c) (dropWhile is_sep (rev p)))"

definition extname :: "string \<Rightarrow> string" where
  "extname p =
     (let b = basename p;
          e = takeWhile (\<lambda>c. c \<noteq> CHR ''.'') (rev b)
      in if CHR ''.'' \<notin> set b then []
         else if drop (length e + 1) (rev b) = [] then []
         else if b = ''..'' then []
         else CHR ''.'' # rev e)"

definition dirname :: "string \<Rightarrow> string" where
  "dirname p =
     (if p = [] then ''.''
      else
        let hasRoot = is_sep (hd p);
            r = dropWhile (\<lambda>c. \<not> is_sep c) (dropWhile is_sep (rev (tl p)))
        in if r = [] then (if hasRoot then ''/'' else ''.'')
           else if hasRoot \<and> length r = 1 then ''//''
           else take (length r) p)"

definition path_join :: "string \<Rightarrow> string \<Rightarrow> string" where
  "path_join d n = d @ ''/'' @ n"

section \<open>Content digests\<close>

text \<open>
  \<^verbatim>\<open>HashGenerator.generateAllHashes\<close> feeds every chunk of the file to Node's MD5, SHA-1 and
  SHA-256 and returns the three lowercase hex digests. The three functions are written out
  here on 32-bit quantities held in \<^typ>\<open>nat\<close>, with the reduction modulo \<open>2^32\<close> explicit.
\<close>

definition add32 :: "nat \<Rightarrow> nat \<Rightarrow> nat" where
  "add32 a b = (a + b) mod 4294967296"

definition not32 :: "nat \<Rightarrow> nat" where
  "not32 a = 4294967295 - a mod 4294967296"

definition rotl32 :: "nat \<Rightarrow> nat \<Rightarrow> nat" where
  "rotl32 x n = (x * 2 ^ n) mod 4294967296 + x div 2 ^ (32 - n)"

definition rotr32 :: "nat \<Rightarrow> nat \<Rightarrow> nat" where
  "rotr32 x n = x div 2 ^ n + (x * 2 ^ (32 - n)) mod 4294967296"

definition byte_of :: "char \<Rightarrow> nat" where
  "byte_of c = of_char c"

definition hex_digit :: "nat \<Rightarrow> char" where
  "hex_digit n = ''0123456789abcdef'' ! (n mod 16)"

definition hex_byte :: "nat \<Rightarrow> string" where
  "hex_byte b = [hex_digit (b div 16), hex_digit b]"

definition hex :: "nat list \<Rightarrow> string" where
  "hex bs = concat (map hex_byte bs)"

definition le_bytes4 :: "nat \<Rightarrow> nat list" where
  "le_bytes4 n = [n mod 256, n div 256 mod 256, n div 65536 mod 256, n div 16777216 mod 256]"

definition le_bytes8 :: "nat \<Rightarrow> nat list" where
  "le_bytes8 n = le_bytes4 (n mod 4294967296) @ le_bytes4 (n div 4294967296)"

definition be_bytes4 :: "nat \<Rightarrow> nat list" where
  "be_bytes4 n = rev (le_bytes4 n)"

definition be_bytes8 :: "nat \<Rightarrow> nat list" where
  "be_bytes8 n = rev (le_bytes8 n)"

definition le_word :: "nat list \<Rightarrow> nat" where
  "le_word bs = foldr (\<lambda>b acc. b + 256 * acc) bs 0"

definition be_word :: "nat list \<Rightarrow> nat" where
  "be_word bs = foldl (\<lambda>acc b. 256 * acc + b) 0 bs"

fun chunks :: "nat \<Rightarrow> nat \<Rightarrow> 'a list \<Rightarrow> 'a list list" where
  "chunks n 0 xs = []"
| "chunks n (Suc k) xs = take n xs # chunks n k (drop n xs)"

definition blocks64 :: "nat list \<Rightarrow> nat list list" where
  "blocks64 p = chunks 64 (length p div 64) p"

definition pad_zeros :: "nat \<Rightarrow> nat" where
  "pad_zeros len = (119 - len mod 64) mod 64"

definition md5_pad :: "nat list \<Rightarrow> nat list" where
  "md5_pad m = m @ [128] @ replicate (pad_zeros (length m)) 0 @ le_bytes8 (8 * length m)"

definition sha_pad :: "nat list \<Rightarrow> nat list" where
  "sha_pad m = m @ [128] @ replicate (pad_zeros (length m)) 0 @ be_bytes8 (8 * length m)"

subsection \<open>MD5\<close>

text \<open>Per round: the additive constant \<open>\<lfloor>2^32 \<times> |sin (i + 1)|\<rfloor>\<close> and the rotation amount.\<close>

definition md5_table :: "(nat \<times> nat) list" where
  "md5_table =
    [(3614090360, 7), (3905402710, 12), (606105819, 17), (3250441966, 22),
     (4118548399, 7), (1200080426, 12), (2821735955, 17), (4249261313, 22),
     (1770035416, 7), (2336552879, 12), (4294925233, 17), (2304563134, 22),
     (1804603682, 7), (4254626195, 12), (2792965006, 17), (1236535329, 22),
     (4129170786, 5), (3225465664, 9), (643717713, 14), (3921069994, 20),
     (3593408605, 5), (38016083, 9), (3634488961, 14), (3889429448, 20),
     (568446438, 5), (3275163606, 9), (4107603335, 14), (1163531501, 20),
     (2850285829, 5), (4243563512, 9), (1735328473, 14), (2368359562, 20),
     (4294588738, 4), (2272392833, 11), (1839030562, 16), (4259657740, 23),
     (2763975236, 4), (1272893353, 11), (4139469664, 16), (3200236656, 23),
     (681279174, 4), (3936430074, 11), (3572445317, 16), (76029189, 23),
     (3654602809, 4), (3873151461, 11), (530742520, 16), (3299628645, 23),
     (4096336452, 6), (1126891415, 10), (2878612391, 15), (4237533241, 21),
     (1700485571, 6), (2399980690, 10), (4293915773, 15), (2240044497, 21),
     (1873313359, 6), (4264355552, 10), (2734768916, 15), (1309151649, 21),
     (4149444226, 6), (3174756917, 10), (718787259, 15), (3951481745, 21)]"

definition md5_f :: "nat \<Rightarrow> nat \<Rightarrow> nat \<Rightarrow> nat \<Rightarrow> nat" where
  "md5_f i b c d =
     (if i < 16 then (b AND c) OR (not32 b AND d)
      else if i < 32 then (d AND b) OR (not32 d AND c)
      else if i < 48 then b XOR c XOR d
      else c XOR (b OR not32 d))"

definition md5_g :: "nat \<Rightarrow> nat" where
  "md5_g i =
     (if i < 16 then i
      else if i < 32 then (5 * i + 1) mod 16
      else if i < 48 then (3 * i + 5) mod 16
      else (7 * i) mod 16)"

type_synonym st4 = "nat \<times> nat \<times> nat \<times> nat"

definition md5_step :: "nat list \<Rightarrow> nat \<Rightarrow> nat \<Rightarrow> nat \<Rightarrow> nat \<Rightarrow> nat \<Rightarrow> nat \<Rightarrow> nat \<Rightarrow> st4" where
  "md5_step M i k s a b c d =
     (d, add32 b (rotl32 (add32 (add32 (add32 (md5_f i b c d) a) k) (M ! md5_g i)) s), b, c)"

fun md5_rounds :: "nat list \<Rightarrow> nat \<Rightarrow> (nat \<times> nat) list \<Rightarrow> st4 \<Rightarrow> st4" where
  "md5_rounds M i [] st = st"
| "md5_rounds M i ((k, s) # rest) (a, b, c, d) =
     md5_rounds M (i + 1) rest (md5_step M i k s a b c d)"

fun add4 :: "st4 \<Rightarrow> st4 \<Rightarrow> st4" where
  "add4 (a0, b0, c0, d0) (a, b, c, d) = (add32 a0 a, add32 b0 b, add32 c0 c, add32 d0 d)"

definition md5_block :: "st4 \<Rightarrow> nat list \<Rightarrow> st4" where
  "md5_block h blk = add4 h (md5_rounds (map le_word (chunks 4 16 blk)) 0 md5_table h)"

fun md5_out :: "st4 \<Rightarrow> string" where
  "md5_out (a, b, c, d) = hex (le_bytes4 a @ le_bytes4 b @ le_bytes4 c @ le_bytes4 d)"

definition md5 :: "string \<Rightarrow> string" where
  "md5 m = md5_out (foldl md5_block (1732584193, 4023233417, 2562383102, 271733878)
                      (blocks64 (md5_pad (map byte_of m))))"

subsection \<open>SHA-1\<close>

definition sha1_f :: "nat \<Rightarrow> nat \<Rightarrow> nat \<Rightarrow> nat \<Rightarrow> nat" where
  "sha1_f t b c d =
     (if t < 20 then (b AND c) OR (not32 b AND d)
      else if t < 40 then b XOR c XOR d
      else if t < 60 then (b AND c) OR (b AND d) OR (c AND d)
      else b XOR c XOR d)"

definition sha1_ks :: "nat list" where
  "sha1_ks = replicate 20 1518500249 @ replicate 20 1859775393
             @ replicate 20 2400959708 @ replicate 20 3395469782"

text \<open>
  The message schedule is kept as a sliding window of sixteen words whose head is the word
  of the current round.
\<close>

definition sha1_next :: "nat list \<Rightarrow> nat" where
  "sha1_next w = rotl32 ((w ! 13) XOR (w ! 8) XOR (w ! 2) XOR (w ! 0)) 1"

type_synonym st5 = "nat \<times> nat \<times> nat \<times> nat \<times> nat"

definition sha1_step :: "nat \<Rightarrow> nat \<Rightarrow> nat \<Rightarrow> nat \<Rightarrow> nat \<Rightarrow> nat \<Rightarrow> nat \<Rightarrow> nat \<Rightarrow> st5" where
  "sha1_step t k wt a b c d e =
     (add32 (add32 (add32 (add32 (rotl32 a 5) (sha1_f t b c d)) e) k) wt,
      a, rotl32 b 30, c, d)"

fun sha1_rounds :: "nat \<Rightarrow> nat list \<Rightarrow> nat list \<Rightarrow> st5 \<Rightarrow> st5" where
  "sha1_rounds t [] w st = st"
| "sha1_rounds t (k # ks) w (a, b, c, d, e) =
     sha1_rounds (t + 1) ks (tl w @ [sha1_next w]) (sha1_step t k (hd w) a b c d e)"

fun add5 :: "st5 \<Rightarrow> st5 \<Rightarrow> st5" where
  "add5 (a0, b0, c0, d0, e0) (a, b, c, d, e) =
     (add32 a0 a, add32 b0 b, add32 c0 c, add32 d0 d, add32 e0 e)"

definition sha1_block :: "st5 \<Rightarrow> nat list \<Rightarrow> st5" where
  "sha1_block h blk = add5 h (sha1_rounds 0 sha1_ks (map be_word (chunks 4 16 blk)) h)"

fun sha1_out :: "st5 \<Rightarrow> string" where
  "sha1_out (a, b, c, d, e) =
     hex (be_bytes4 a @ be_bytes4 b @ be_bytes4 c @ be_bytes4 d @ be_bytes4 e)"

definition sha1 :: "string \<Rightarrow> string" where
  "sha1 m = sha1_out (foldl sha1_block
                        (1732584193, 4023233417, 2562383102, 271733878, 3285377520)
                        (blocks64 (sha_pad (map byte_of m))))"

subsection \<open>SHA-256\<close>

definition sha256_k :: "nat list" where
  "sha256_k =
    [1116352408, 1899447441, 3049323471, 3921009573, 961987163, 1508970993,
     2453635748, 2870763221, 3624381080, 310598401, 607225278, 1426881987,
     1925078388, 2162078206, 2614888103, 3248222580, 3835390401, 4022224774,
     264347078, 604807628, 770255983, 1249150122, 1555081692, 1996064986,
     2554220882, 2821834349, 2952996808, 3210313671, 3336571891, 3584528711,
     113926993, 338241895, 666307205, 773529912, 1294757372, 1396182291,
     1695183700, 1986661051, 2177026350, 2456956037, 2730485921, 2820302411,
     3259730800, 3345764771, 3516065817, 3600352804, 4094571909, 275423344,
     430227734, 506948616, 659060556, 883997877, 958139571, 1322822218,
     1537002063, 1747873779, 1955562222, 2024104815, 2227730452, 2361852424,
     2428436474, 2756734187, 3204031479, 3329325298]"

definition ch32 :: "nat \<Rightarrow> nat \<Rightarrow> nat \<Rightarrow> nat" where
  "ch32 e f g = (e AND f) XOR (not32 e AND g)"

definition maj32 :: "nat \<Rightarrow> nat \<Rightarrow> nat \<Rightarrow> nat" where
  "maj32 a b c = (a AND b) XOR (a AND c) XOR (b AND c)"

definition bsig0 :: "nat \<Rightarrow> nat" where
  "bsig0 x = rotr32 x 2 XOR rotr32 x 13 XOR rotr32 x 22"

definition bsig1 :: "nat \<Rightarrow> nat" where
  "bsig1 x = rotr32 x 6 XOR rotr32 x 11 XOR rotr32 x 25"

definition ssig0 :: "nat \<Rightarrow> nat" where
  "ssig0 x = rotr32 x 7 XOR rotr32 x 18 XOR (x div 2 ^ 3)"

definition ssig1 :: "nat \<Rightarrow> nat" where
  "ssig1 x = rotr32 x 17 XOR rotr32 x 19 XOR (x div 2 ^ 10)"

definition sha256_next :: "nat list \<Rightarrow> nat" where
  "sha256_next w = add32 (add32 (add32 (ssig1 (w ! 14)) (w ! 9)) (ssig0 (w ! 1))) (w ! 0)"

type_synonym st8 = "nat \<times> nat \<times> nat \<times> nat \<times> nat \<times> nat \<times> nat \<times> nat"

definition sha256_t1 :: "nat \<Rightarrow> nat \<Rightarrow> nat \<Rightarrow> nat \<Rightarrow> nat \<Rightarrow> nat \<Rightarrow> nat" where
  "sha256_t1 k wt e f g h = add32 (add32 (add32 (add32 h (bsig1 e)) (ch32 e f g)) k) wt"

definition sha256_t2 :: "nat \<Rightarrow> nat \<Rightarrow> nat \<Rightarrow> nat" where
  "sha256_t2 a b c = add32 (bsig0 a) (maj32 a b c)"

definition sha256_step ::
  "nat \<Rightarrow> nat \<Rightarrow> nat \<Rightarrow> nat \<Rightarrow> nat \<Rightarrow> nat \<Rightarrow> nat \<Rightarrow> nat \<Rightarrow> nat \<Rightarrow> nat \<Rightarrow> st8" where
  "sha256_step k wt a b c d e f g h =
     (add32 (sha256_t1 k wt e f g h) (sha256_t2 a b c), a, b, c,
      add32 d (sha256_t1 k wt e f g h), e, f, g)"

fun sha256_rounds :: "nat list \<Rightarrow> nat list \<Rightarrow> st8 \<Rightarrow> st8" where
  "sha256_rounds [] w st = st"
| "sha256_rounds (k # ks) w (a, b, c, d, e, f, g, h) =
     sha256_rounds ks (tl w @ [sha256_next w]) (sha256_step k (hd w) a b c d e f g h)"

fun add8 :: "st8 \<Rightarrow> st8 \<Rightarrow> st8" where
  "add8 (a0, b0, c0, d0, e0, f0, g0, h0) (a, b, c, d, e, f, g, h) =
     (add32 a0 a, add32 b0 b, add32 c0 c, add32 d0 d,
      add32 e0 e, add32 f0 f, add32 g0 g, add32 h0 h)"

definition sha256_block :: "st8 \<Rightarrow> nat list \<Rightarrow> st8" where
  "sha256_block h blk = add8 h (sha256_rounds sha256_k (map be_word (chunks 4 16 blk)) h)"

fun sha256_out :: "st8 \<Rightarrow> string" where
  "sha256_out (a, b, c, d, e, f, g, h) =
     hex (be_bytes4 a @ be_bytes4 b @ be_bytes4 c @ be_bytes4 d
          @ be_bytes4 e @ be_bytes4 f @ be_bytes4 g @ be_bytes4 h)"

definition sha256 :: "string \<Rightarrow> string" where
  "sha256 m = sha256_out (foldl sha256_block
       (1779033703, 3144134277, 1013904242, 2773480762,
        1359893119, 2600822924, 528734635, 1541459225)
       (blocks64 (sha_pad (map byte_of m))))"

record hashes =
  h_md5 :: string
  h_sha1 :: string
  h_sha256 :: string

definition digests :: "string \<Rightarrow> hashes" where
  "digests content = \<lparr>h_md5 = md5 content, h_sha1 = sha1 content, h_sha256 = sha256 content\<rparr>"

text \<open>The EICAR test string of \<^verbatim>\<open>tests/eicar-test.js\<close> (68 bytes, one backslash).\<close>

definition eicar :: string where
  "eicar = ''X5O!P%@AP[4'' @ [CHR 0x5C]
           @ ''PZX54(P^)7CC)7}$EICAR-STANDARD-ANTIVIRUS-TEST-FILE!$H+H*''"

section \<open>Errors\<close>

text \<open>
  Every \<^verbatim>\<open>throw\<close> of the source and every rejection of a library call is a value of
  \<^typ>\<open>'a + 'b\<close> with the error on the left. \<open>InvalidArgument\<close> is
  \<^verbatim>\<open>Error('Invalid scan type or paths')\<close>, \<open>NotFound\<close> is \<^verbatim>\<open>Error('File not found')\<close> and
  \<^verbatim>\<open>Error('Quarantined file not found')\<close>, \<open>IOError\<close> carries the \<^verbatim>\<open>error.code\<close> of a
  failed file-system call, \<open>ParseError\<close> is the \<^verbatim>\<open>SyntaxError\<close> of \<^verbatim>\<open>JSON.parse\<close>,
  \<open>CryptoError\<close> a failed \<^verbatim>\<open>createDecipheriv\<close>/\<^verbatim>\<open>decipher.final\<close>, and \<open>RegexError\<close> the
  \<^verbatim>\<open>SyntaxError\<close> of \<^verbatim>\<open>new RegExp\<close>.
\<close>

datatype errno = ENOENT | EACCES | EISDIR | ENOTDIR | EBUSY | EPERM

datatype error =
    InvalidArgument
  | NotFound
  | IOError errno
  | ParseError
  | CryptoError
  | KeyLengthError
  | TypeError
  | RegexError

section \<open>Data model\<close>

record sig_info =
  name :: string
  type_tag :: string
  severity :: string
  description :: string

record hash_signature = sig_info +
  hash :: string
  hash_type :: string

record pattern_signature = sig_info +
  pattern :: string
  offset :: "nat option"
  maxBytes :: "nat option"

datatype scan_status = Running | Completed

record scan_session =
  sid :: nat
  scan_type :: string
  start_time :: nat
  end_time :: "nat option"
  status :: scan_status
  files_scanned :: nat
  threats_found :: nat
  sess_duration :: "int option"

record detection =
  det_id :: nat
  scan_id :: "nat option"
  file_path :: string
  threat_name :: string
  threat_type :: string
  det_severity :: string
  detection_method :: string
  detected_at :: nat
  action_taken :: "string option"

record db_data =
  hash_signatures :: "hash_signature list"
  pattern_signatures :: "pattern_signature list"
  scan_history :: "scan_session list"
  threat_detections :: "detection list"

text \<open>The JSON file behind \<^verbatim>\<open>ThreatDatabase\<close>: missing, unreadable as JSON, or holding the four collections.\<close>

datatype db_disk = Absent | Corrupt | Stored db_data

record threat_db =
  data :: db_data
  initialized :: bool

text \<open>
  A parsed JSON document, as \<^verbatim>\<open>fs.readJson\<close> returns it: any JSON value, not only a
  quarantine metadata object. A number is kept as its literal; the members of an object are
  listed in document order.
\<close>

datatype json =
    JNull
  | JBool bool
  | JNum string
  | JStr string
  | JArr "json list"
  | JObj "(string \<times> json) list"

section \<open>Platform\<close>

text \<open>
  Library behaviour that the repository calls but does not contain is a parameter of the model:
  \<^item> \<open>regex_ok src\<close>: \<^verbatim>\<open>new RegExp(src, 'gi')\<close> does not throw;
  \<^item> \<open>regex_exec src s i\<close>: the end index of the leftmost match of that expression in \<open>s\<close>
    that starts at index \<open>i\<close> or later, if there is one;
  \<^item> \<open>cipher_enc key iv m\<close> and \<open>cipher_dec key iv c\<close>: AES-256-CBC with PKCS#7 padding as
    \<^verbatim>\<open>createCipheriv\<close>/\<^verbatim>\<open>createDecipheriv\<close> followed by \<^verbatim>\<open>update\<close> and \<^verbatim>\<open>final\<close> compute it,
    decryption failing with \<open>None\<close>;
  \<^item> \<open>json_stringify\<close> and \<open>json_parse\<close>: the text \<^verbatim>\<open>fs.writeJson\<close> writes for a value and
    the value \<^verbatim>\<open>fs.readJson\<close> reads from a text, \<open>None\<close> when the text is not JSON;
  \<^item> \<open>iso_string t\<close>: \<^verbatim>\<open>new Date(t).toISOString()\<close>;
  \<^item> \<open>date_value v\<close>: the time value of \<^verbatim>\<open>new Date(v)\<close> for a property value \<open>v\<close>
    (\<open>None\<close> as argument is \<^verbatim>\<open>undefined\<close>), \<open>None\<close> as result when it is \<^verbatim>\<open>NaN\<close>;
  \<^item> \<open>to_string v\<close>: the string that \<^verbatim>\<open>'...' + v\<close> appends for a property value \<open>v\<close>;
  \<^item> \<open>array_sort cmp xs\<close>: \<^verbatim>\<open>Array.prototype.sort\<close> with the comparator \<open>cmp\<close>, whose result
    is an error when it throws and \<open>None\<close> when it is \<^verbatim>\<open>NaN\<close>;
  \<^item> \<open>win32\<close> and \<open>attrib\<close>: \<^verbatim>\<open>process.platform === 'win32'\<close> and the output of the
    \<^verbatim>\<open>attrib\<close> command, \<open>None\<close> when \<^verbatim>\<open>execSync\<close> throws.
\<close>

record platform =
  regex_ok :: "string \<Rightarrow> bool"
  regex_exec :: "string \<Rightarrow> string \<Rightarrow> nat \<Rightarrow> nat option"
  cipher_enc :: "string \<Rightarrow> string \<Rightarrow> string \<Rightarrow> string"
  cipher_dec :: "string \<Rightarrow> string \<Rightarrow> string \<Rightarrow> string option"
  json_stringify :: "json \<Rightarrow> string"
  json_parse :: "string \<Rightarrow> json option"
  iso_string :: "nat \<Rightarrow> string"
  date_value :: "json option \<Rightarrow> int option"
  to_string :: "json option \<Rightarrow> string"
  array_sort :: "(json \<Rightarrow> json \<Rightarrow> error + int option) \<Rightarrow> json list \<Rightarrow> error + json list"
  win32 :: bool
  attrib :: "string \<Rightarrow> string option"

section \<open>The world: file system, database file, clock and randomness\<close>

text \<open>
  \<open>files\<close> maps the path of each regular file to its bytes and \<open>dirs\<close> lists the
  directories. \<open>faults\<close> makes reading the content of a path fail with the given code (a locked
  or unreadable file), \<open>locked\<close> makes removing a path fail with the given code. \<open>clock\<close> is the sequence of values \<^verbatim>\<open>Date.now()\<close> and \<^verbatim>\<open>new Date()\<close>
  return, \<open>ticks\<close> counting the reads so far; \<open>entropy\<close> is the byte stream behind
  \<^verbatim>\<open>crypto.randomBytes\<close>, \<open>drawn\<close> counting the bytes consumed. \<open>hashed\<close> logs the paths
  handed to \<^verbatim>\<open>generateAllHashes\<close>, most recent last.
\<close>

record world =
  files :: "(string \<times> string) list"
  dirs :: "string list"
  faults :: "(string \<times> errno) list"
  locked :: "(string \<times> errno) list"
  db_file :: db_disk
  clock :: "nat \<Rightarrow> nat"
  ticks :: nat
  entropy :: "nat \<Rightarrow> char"
  drawn :: nat
  hashed :: "string list"

record file_stats =
  st_size :: nat
  st_isDirectory :: bool

definition is_dir :: "world \<Rightarrow> string \<Rightarrow> bool" where
  "is_dir w p = (p \<in> set (dirs w))"

definition pathExists :: "world \<Rightarrow> string \<Rightarrow> bool" where
  "pathExists w p = (is_dir w p \<or> map_of (files w) p \<noteq> None)"

definition stat :: "world \<Rightarrow> string \<Rightarrow> error + file_stats" where
  "stat w p =
     (if is_dir w p then Inr \<lparr>st_size = 0, st_isDirectory = True\<rparr>
      else case map_of (files w) p of
             None \<Rightarrow> Inl (IOError ENOENT)
           | Some c \<Rightarrow> Inr \<lparr>st_size = length c, st_isDirectory = False\<rparr>)"

definition readFile :: "world \<Rightarrow> string \<Rightarrow> error + string" where
  "readFile w p =
     (if is_dir w p then Inl (IOError EISDIR)
      else case map_of (files w) p of
             None \<Rightarrow> Inl (IOError ENOENT)
           | Some c \<Rightarrow> (case map_of (faults w) p of
                          Some e \<Rightarrow> Inl (IOError e)
                        | None \<Rightarrow> Inr c))"

definition writeFile :: "world \<Rightarrow> string \<Rightarrow> string \<Rightarrow> error + world" where
  "writeFile w p c =
     (if is_dir w p then Inl (IOError EISDIR)
      else if \<not> is_dir w (dirname p) then Inl (IOError ENOENT)
      else Inr (w\<lparr>files := AList.update p c (files w)\<rparr>))"

text \<open>
  \<^verbatim>\<open>fs.remove\<close> of fs-extra: recursive, silent when the path is missing, and failing when
  the path exists and cannot be removed.
\<close>

definition unlink :: "world \<Rightarrow> string \<Rightarrow> world" where
  "unlink w p =
     (if is_dir w p
      then w\<lparr>files := filter (\<lambda>e. fst e \<noteq> p \<and> \<not> startsWith (fst e) (p @ ''/'')) (files w),
             dirs := filter (\<lambda>q. q \<noteq> p \<and> \<not> startsWith q (p @ ''/'')) (dirs w)\<rparr>
      else w\<lparr>files := AList.delete p (files w)\<rparr>)"

definition remove :: "world \<Rightarrow> string \<Rightarrow> error + world" where
  "remove w p =
     (if \<not> pathExists w p then Inr w
      else case map_of (locked w) p of
             Some e \<Rightarrow> Inl (IOError e)
           | None \<Rightarrow> Inr (unlink w p))"


definition now :: "world \<Rightarrow> nat \<times> world" where
  "now w = (clock w (ticks w), w\<lparr>ticks := ticks w + 1\<rparr>)"

definition randomBytes :: "nat \<Rightarrow> world \<Rightarrow> string \<times> world" where
  "randomBytes n w = (map (entropy w) [drawn w ..< drawn w + n], w\<lparr>drawn := drawn w + n\<rparr>)"

section \<open>Configuration\<close>

record config =
  quarantine_path :: string
  homedir :: string
  scanPaths_quick :: "string list"
  scanPaths_full :: "string list"
  exclusions_paths :: "string list"
  exclusions_extensions :: "string list"
  maxFileSize :: nat
  enableSignatureScanning :: bool
  enableHeuristicAnalysis :: bool
  heuristicSensitivity :: string
  encryptionKey :: "16 word list"

section \<open>ThreatDatabase\<close>

definition new_db :: threat_db where
  "new_db = \<lparr>data = \<lparr>hash_signatures = [], pattern_signatures = [],
                       scan_history = [], threat_detections = []\<rparr>,
            initialized = False\<rparr>"

definition save :: "world \<Rightarrow> threat_db \<Rightarrow> world" where
  "save w db = w\<lparr>db_file := Stored (data db)\<rparr>"

definition eicar_md5_sig :: hash_signature where
  "eicar_md5_sig =
     \<lparr>name = ''EICAR-Test-File'', type_tag = ''test'', severity = ''low'',
      description = ''EICAR antivirus test file'',
      hash = ''44d88612fea8a8f36de82e1278abb02f'', hash_type = ''md5''\<rparr>"

definition eicar_sha256_sig :: hash_signature where
  "eicar_sha256_sig =
     \<lparr>name = ''EICAR-Test-File'', type_tag = ''test'', severity = ''low'',
      description = ''EICAR antivirus test file'',
      hash = ''275a021bbfb6489e54d471899f7db9d1663fc695ec2fe2a2c4538aabf651fd0f'',
      hash_type = ''sha256''\<rparr>"

definition powershell_sig :: pattern_signature where
  "powershell_sig =
     \<lparr>name = ''PowerShell.Downloader'', type_tag = ''trojan'', severity = ''high'',
      description = ''PowerShell download and execute pattern'',
      pattern = ''(Invoke-WebRequest|IWR|wget|curl).*'' @ [CHR 0x5C] @ ''.(exe|dll|bat|ps1)'',
      offset = None, maxBytes = None\<rparr>"

definition push_hash_sig :: "hash_signature list \<Rightarrow> hash_signature \<Rightarrow> hash_signature list" where
  "push_hash_sig sigs s = (if \<exists>h \<in> set sigs. hash h = hash s then sigs else sigs @ [s])"

definition push_pattern_sig ::
  "pattern_signature list \<Rightarrow> pattern_signature \<Rightarrow> pattern_signature list" where
  "push_pattern_sig sigs s = (if \<exists>p \<in> set sigs. name p = name s then sigs else sigs @ [s])"

definition populateInitialSignatures :: "threat_db \<Rightarrow> threat_db" where
  "populateInitialSignatures db =
     db\<lparr>data := (data db)
          \<lparr>hash_signatures :=
             foldl push_hash_sig (hash_signatures (data db)) [eicar_md5_sig, eicar_sha256_sig],
           pattern_signatures :=
             foldl push_pattern_sig (pattern_signatures (data db)) [powershell_sig]\<rparr>\<rparr>"

definition seed_if_empty :: "world \<Rightarrow> threat_db \<Rightarrow> world \<times> threat_db" where
  "seed_if_empty w db =
     (if hash_signatures (data db) = []
      then (save w (populateInitialSignatures db),
            (populateInitialSignatures db)\<lparr>initialized := True\<rparr>)
      else (w, db\<lparr>initialized := True\<rparr>))"

definition initialize :: "world \<Rightarrow> threat_db \<Rightarrow> (error + bool) \<times> world \<times> threat_db" where
  "initialize w db =
     (if initialized db then (Inr True, w, db)
      else case db_file w of
             Corrupt \<Rightarrow> (Inl ParseError, w, db)
           | Stored d \<Rightarrow> (Inr True, seed_if_empty w (db\<lparr>data := d\<rparr>))
           | Absent \<Rightarrow> (Inr True, seed_if_empty (save w db) db))"

definition getHashSignatures :: "threat_db \<Rightarrow> hash_signature list" where
  "getHashSignatures db = hash_signatures (data db)"

definition getPatternSignatures :: "threat_db \<Rightarrow> pattern_signature list" where
  "getPatternSignatures db = pattern_signatures (data db)"

definition recordScanStart :: "world \<Rightarrow> threat_db \<Rightarrow> string \<Rightarrow> nat \<times> world \<times> threat_db" where
  "recordScanStart w db scanType =
     (let new_id = fst (now w);
          w1 = snd (now w);
          started = fst (now w1);
          w2 = snd (now w1);
          db' = db\<lparr>data := (data db)\<lparr>scan_history := scan_history (data db) @
                  [\<lparr>sid = new_id, scan_type = scanType, start_time = started, end_time = None,
                    status = Running, files_scanned = 0, threats_found = 0,
                    sess_duration = None\<rparr>]\<rparr>\<rparr>
      in (new_id, save w2 db', db'))"

text \<open>\<^verbatim>\<open>scan_history.find(s => s.id === scanId)\<close> followed by the in-place update of that object.\<close>

fun update_first :: "('a \<Rightarrow> bool) \<Rightarrow> ('a \<Rightarrow> 'a) \<Rightarrow> 'a list \<Rightarrow> 'a list" where
  "update_first P f [] = []"
| "update_first P f (x # xs) = (if P x then f x # xs else x # update_first P f xs)"

definition recordScanComplete ::
  "world \<Rightarrow> threat_db \<Rightarrow> nat \<Rightarrow> nat \<Rightarrow> nat \<Rightarrow> int \<Rightarrow> world \<times> threat_db" where
  "recordScanComplete w db scanId filesScanned threatsFound dur =
     (if \<exists>s \<in> set (scan_history (data db)). sid s = scanId
      then
        let ended = fst (now w);
            w1 = snd (now w);
            db' = db\<lparr>data := (data db)\<lparr>scan_history :=
                    update_first (\<lambda>s. sid s = scanId)
                      (\<lambda>s. s\<lparr>end_time := Some ended, files_scanned := filesScanned,
                              threats_found := threatsFound, sess_duration := Some dur,
                              status := Completed\<rparr>)
                      (scan_history (data db))\<rparr>\<rparr>
        in (save w1 db', db')
      else (w, db))"

text \<open>
  \<^verbatim>\<open>recordThreatDetection\<close>: the record id is \<^verbatim>\<open>Date.now() + Math.random()\<close>; only the clock
  reading is kept.
\<close>

definition recordThreatDetection ::
  "world \<Rightarrow> threat_db \<Rightarrow> nat option \<Rightarrow> string \<Rightarrow> string \<Rightarrow> string \<Rightarrow> string \<Rightarrow> string
     \<Rightarrow> world \<times> threat_db" where
  "recordThreatDetection w db scanId filePath threatName threatType sev detectionMethod =
     (let new_id = fst (now w);
          w1 = snd (now w);
          at = fst (now w1);
          w2 = snd (now w1);
          db' = db\<lparr>data := (data db)\<lparr>threat_detections := threat_detections (data db) @
                  [\<lparr>det_id = new_id, scan_id = scanId, file_path = filePath,
                    threat_name = threatName, threat_type = threatType, det_severity = sev,
                    detection_method = detectionMethod, detected_at = at,
                    action_taken = None\<rparr>]\<rparr>\<rparr>
      in (save w2 db', db'))"

section \<open>SignatureDetector\<close>

text \<open>
  A compiled pattern is the \<^verbatim>\<open>RegExp\<close> object built with the flags \<^verbatim>\<open>'gi'\<close>: its source and
  its mutable \<^verbatim>\<open>lastIndex\<close>, which the global flag makes \<^verbatim>\<open>test\<close> read and write.
\<close>

record compiled_pattern = sig_info +
  source :: string
  lastIndex :: nat
  c_offset :: nat
  c_maxBytes :: nat

record detector =
  signaturesLoaded :: bool
  sig_hashes :: "string \<rightharpoonup> sig_info"
  patterns :: "compiled_pattern list"

record threat_info = sig_info +
  method_tag :: string
  suspicionScore :: "nat option"
  traits :: "string list"

definition new_detector :: detector where
  "new_detector = \<lparr>signaturesLoaded = False, sig_hashes = Map.empty, patterns = []\<rparr>"

definition set_hash :: "(string \<rightharpoonup> sig_info) \<Rightarrow> hash_signature \<Rightarrow> (string \<rightharpoonup> sig_info)" where
  "set_hash m sig = m(toLowerCase (hash sig) \<mapsto> sig_info.truncate sig)"

definition compile_pattern :: "pattern_signature \<Rightarrow> compiled_pattern" where
  "compile_pattern sig =
     \<lparr>name = name sig, type_tag = type_tag sig, severity = severity sig,
      description = description sig,
      source = pattern sig, lastIndex = 0,
      c_offset = (case offset sig of None \<Rightarrow> 0 | Some n \<Rightarrow> n),
      c_maxBytes = (case maxBytes sig of None \<Rightarrow> 1024 * 1024
                    | Some n \<Rightarrow> if n = 0 then 1024 * 1024 else n)\<rparr>"

definition loadSignatures :: "platform \<Rightarrow> threat_db \<Rightarrow> detector \<Rightarrow> error option \<times> detector" where
  "loadSignatures P db det =
     (if signaturesLoaded det then (None, det)
      else if \<forall>sig \<in> set (getPatternSignatures db). regex_ok P (pattern sig)
      then (None, det\<lparr>sig_hashes := foldl set_hash (sig_hashes det) (getHashSignatures db),
                      patterns := map compile_pattern (getPatternSignatures db),
                      signaturesLoaded := True\<rparr>)
      else (Some RegexError,
            det\<lparr>sig_hashes := foldl set_hash (sig_hashes det) (getHashSignatures db)\<rparr>))"

definition checkHashSignatures :: "detector \<Rightarrow> hashes \<Rightarrow> sig_info option" where
  "checkHashSignatures det h =
     (if h_md5 h \<noteq> [] \<and> sig_hashes det (toLowerCase (h_md5 h)) \<noteq> None
      then sig_hashes det (toLowerCase (h_md5 h))
      else if h_sha1 h \<noteq> [] \<and> sig_hashes det (toLowerCase (h_sha1 h)) \<noteq> None
      then sig_hashes det (toLowerCase (h_sha1 h))
      else if h_sha256 h \<noteq> [] \<and> sig_hashes det (toLowerCase (h_sha256 h)) \<noteq> None
      then sig_hashes det (toLowerCase (h_sha256 h))
      else None)"

text \<open>
  \<^verbatim>\<open>RegExp.prototype.test\<close> on an expression with the global flag: the search starts at
  \<^verbatim>\<open>lastIndex\<close>; a match stores its end index there, a failure resets it to zero.
\<close>

definition regex_test :: "platform \<Rightarrow> compiled_pattern \<Rightarrow> string \<Rightarrow> bool \<times> compiled_pattern" where
  "regex_test P cp s =
     (if length s < lastIndex cp then (False, cp\<lparr>lastIndex := 0\<rparr>)
      else case regex_exec P (source cp) s (lastIndex cp) of
             None \<Rightarrow> (False, cp\<lparr>lastIndex := 0\<rparr>)
           | Some e \<Rightarrow> (True, cp\<lparr>lastIndex := e\<rparr>))"

fun test_patterns ::
  "platform \<Rightarrow> string \<Rightarrow> compiled_pattern list \<Rightarrow> sig_info option \<times> compiled_pattern list" where
  "test_patterns P content [] = (None, [])"
| "test_patterns P content (cp # cps) =
     (if fst (regex_test P cp content)
      then (Some (sig_info.truncate cp), snd (regex_test P cp content) # cps)
      else (fst (test_patterns P content cps),
            snd (regex_test P cp content) # snd (test_patterns P content cps)))"

definition scanExtensions :: "string list" where
  "scanExtensions =
     [''.exe'', ''.dll'', ''.bat'', ''.cmd'', ''.ps1'', ''.vbs'', ''.js'', ''.jar'', ''.scr'', ''.com'']"

definition maxReadSize :: nat where
  "maxReadSize = 5 * 1024 * 1024"

definition read_prefix :: "world \<Rightarrow> string \<Rightarrow> nat \<Rightarrow> error + string" where
  "read_prefix w p n = (case readFile w p of Inl e \<Rightarrow> Inl e | Inr c \<Rightarrow> Inr (take n c))"

definition checkPatternSignatures ::
  "platform \<Rightarrow> world \<Rightarrow> detector \<Rightarrow> string \<Rightarrow> sig_info option \<times> detector" where
  "checkPatternSignatures P w det filePath =
     (if toLowerCase (extname filePath) \<notin> set scanExtensions then (None, det)
      else case stat w filePath of
             Inl e \<Rightarrow> (None, det)
           | Inr st \<Rightarrow>
              (case read_prefix w filePath (min (st_size st) maxReadSize) of
                 Inl e \<Rightarrow> (None, det)
               | Inr content \<Rightarrow>
                   (fst (test_patterns P content (patterns det)),
                    det\<lparr>patterns := snd (test_patterns P content (patterns det))\<rparr>)))"

definition with_method :: "string \<Rightarrow> sig_info \<Rightarrow> threat_info" where
  "with_method m s =
     \<lparr>name = name s, type_tag = type_tag s, severity = severity s, description = description s,
      method_tag = m, suspicionScore = None, traits = []\<rparr>"

definition detect ::
  "platform \<Rightarrow> world \<Rightarrow> threat_db \<Rightarrow> detector \<Rightarrow> string \<Rightarrow> hashes
     \<Rightarrow> (error + threat_info option) \<times> detector" where
  "detect P w db det filePath h =
     (case fst (loadSignatures P db det) of
        Some e \<Rightarrow> (Inl e, snd (loadSignatures P db det))
      | None \<Rightarrow>
         (case checkHashSignatures (snd (loadSignatures P db det)) h of
            Some s \<Rightarrow> (Inr (Some (with_method ''signature-hash'' s)),
                       snd (loadSignatures P db det))
          | None \<Rightarrow>
             (Inr (map_option (with_method ''signature-pattern'')
                     (fst (checkPatternSignatures P w (snd (loadSignatures P db det)) filePath))),
              snd (checkPatternSignatures P w (snd (loadSignatures P db det)) filePath))))"

section \<open>HeuristicAnalyzer\<close>

text \<open>
  The regular expressions of the analyzer are literals of the source; each is written out
  as the predicate it decides. All of them carry the flag \<^verbatim>\<open>i\<close>, so they are applied to the
  lowercased string. \<open>dot_star Q\<close> is \<^verbatim>\<open>.*\<close> followed by \<open>Q\<close> (\<^verbatim>\<open>.\<close> does not match a line
  terminator); \<open>after_lit l Q\<close> is an occurrence of the literal \<open>l\<close> followed by \<open>Q\<close>.
\<close>

fun dot_star :: "(string \<Rightarrow> bool) \<Rightarrow> string \<Rightarrow> bool" where
  "dot_star Q [] = Q []"
| "dot_star Q (c # cs) = (Q (c # cs) \<or> (\<not> is_line_terminator c \<and> dot_star Q cs))"

fun after_lit :: "string \<Rightarrow> (string \<Rightarrow> bool) \<Rightarrow> string \<Rightarrow> bool" where
  "after_lit l Q [] = (l = [] \<and> Q [])"
| "after_lit l Q (c # cs) =
     ((startsWith (c # cs) l \<and> Q (drop (length l) (c # cs))) \<or> after_lit l Q cs)"

definition digit_then_exe :: "string \<Rightarrow> bool" where
  "digit_then_exe s = (s \<noteq> [] \<and> is_digit (hd s) \<and> startsWith (tl s) ''.exe'')"

definition ten_digits_exe :: "string \<Rightarrow> bool" where
  "ten_digits_exe s =
     (10 \<le> length s \<and> list_all is_digit (take 10 s) \<and> startsWith (drop 10 s) ''.exe'')"

definition suspiciousPatterns :: "(string \<Rightarrow> bool) list" where
  "suspiciousPatterns =
     [\<lambda>s. includes_str (toLowerCase s) ''crack'',
      \<lambda>s. includes_str (toLowerCase s) ''keygen'',
      \<lambda>s. includes_str (toLowerCase s) ''patch'',
      \<lambda>s. includes_str (toLowerCase s) ''loader'',
      \<lambda>s. includes_str (toLowerCase s) ''activator'',
      \<lambda>s. after_lit ''setup'' (dot_star digit_then_exe) (toLowerCase s),
      \<lambda>s. after_lit ''update'' (dot_star digit_then_exe) (toLowerCase s),
      \<lambda>s. after_lit ''invoice'' (dot_star (\<lambda>t. startsWith t ''.exe'')) (toLowerCase s),
      \<lambda>s. after_lit ''document'' (dot_star (\<lambda>t. startsWith t ''.exe'')) (toLowerCase s),
      \<lambda>s. after_lit ''photo'' (dot_star (\<lambda>t. startsWith t ''.exe'')) (toLowerCase s),
      \<lambda>s. after_lit ''video'' (dot_star (\<lambda>t. startsWith t ''.exe'')) (toLowerCase s),
      \<lambda>s. after_lit [] ten_digits_exe (toLowerCase s),
      \<lambda>s. 32 \<le> length s \<and> list_all is_hex_char (take 32 s),
      \<lambda>s. includes_str (toLowerCase s) ''svchost'',
      \<lambda>s. includes_str (toLowerCase s) ''csrss'',
      \<lambda>s. includes_str (toLowerCase s) ''lsass'',
      \<lambda>s. includes_str (toLowerCase s) ''winlogon'']"

definition checkSuspiciousExtension :: "string \<Rightarrow> string \<Rightarrow> nat" where
  "checkSuspiciousExtension ext fname =
     (if ext \<in> set [''.exe'', ''.scr'', ''.pif'', ''.bat'', ''.cmd'', ''.com'', ''.vbs'', ''.vbe'',
                     ''.js'', ''.jse'', ''.wsf'', ''.wsh'', ''.msi'', ''.jar'', ''.ps1'', ''.psm1'']
      then 15
      else if ext \<in> set [''.dll'', ''.sys'', ''.drv'', ''.ocx'', ''.cpl'', ''.scf'', ''.lnk'', ''.inf'',
                          ''.reg'', ''.hta'', ''.gadget'', ''.application'', ''.msp'', ''.mst'']
      then 10
      else 0)"

definition checkSuspiciousFileName :: "string \<Rightarrow> nat" where
  "checkSuspiciousFileName fname =
     (if \<exists>p \<in> set suspiciousPatterns. p fname then 20 else 0)"

definition bslash :: string where
  "bslash = [CHR 0x5C]"

definition suspiciousLocations :: "string list" where
  "suspiciousLocations =
     [bslash @ ''temp'' @ bslash,
      bslash @ ''tmp'' @ bslash,
      bslash @ ''appdata'' @ bslash @ ''local'' @ bslash @ ''temp'',
      bslash @ ''downloads'' @ bslash,
      bslash @ ''recycler'' @ bslash,
      bslash @ ''system32'' @ bslash,
      bslash @ ''syswow64'' @ bslash]"

definition checkSuspiciousLocation :: "string \<Rightarrow> nat" where
  "checkSuspiciousLocation filePath =
     (if \<exists>l \<in> set suspiciousLocations. includes_str (toLowerCase filePath) l then 10 else 0)"

definition checkSuspiciousSize :: "nat \<Rightarrow> string \<Rightarrow> nat" where
  "checkSuspiciousSize sz ext =
     (if ext \<in> set [''.exe'', ''.dll'', ''.scr''] \<and> sz < 10 * 1024 then 15
      else if ext \<in> set [''.bat'', ''.cmd'', ''.vbs'', ''.ps1''] \<and> 1024 * 1024 < sz then 10
      else 0)"

definition checkFileAttributes :: "platform \<Rightarrow> string \<Rightarrow> string \<Rightarrow> nat" where
  "checkFileAttributes P filePath ext =
     (if win32 P
      then (case attrib P filePath of
              None \<Rightarrow> 0
            | Some out \<Rightarrow>
                if ext \<in> set [''.exe'', ''.dll'', ''.scr'', ''.bat'', ''.cmd'']
                   \<and> (includes_str out ''H'' \<or> includes_str out ''S'')
                then 15 else 0)
      else 0)"

text \<open>
  The last double-extension pattern, \<^verbatim>\<open>/\.\w+\.(exe|scr|bat|cmd|vbs|js)$/i\<close>: the name ends in
  a dot, a non-empty run of word characters, a dot and one of the listed extensions.
\<close>

definition dot_word_before :: "string \<Rightarrow> string \<Rightarrow> bool" where
  "dot_word_before s suffix =
     (endsWith s suffix \<and>
      (let r = rev (take (length s - length suffix) s)
       in takeWhile is_word_char r \<noteq> [] \<and> startsWith (dropWhile is_word_char r) ''.''))"

definition hasDoubleExtension :: "string \<Rightarrow> bool" where
  "hasDoubleExtension fname =
     ((\<exists>e \<in> set [''.pdf.exe'', ''.doc.exe'', ''.jpg.exe'', ''.png.exe'', ''.txt.exe'',
                   ''.zip.exe'', ''.rar.exe'']. endsWith (toLowerCase fname) e)
      \<or> (\<exists>e \<in> set [''.exe'', ''.scr'', ''.bat'', ''.cmd'', ''.vbs'', ''.js''].
            dot_word_before (toLowerCase fname) e))"

text \<open>The first four bytes of the zero-filled 512-byte buffer the file is read into.\<close>

definition header_buffer :: "string \<Rightarrow> string" where
  "header_buffer content = take 512 (content @ replicate 512 (CHR 0x00))"

definition hasExecutableContent :: "world \<Rightarrow> string \<Rightarrow> string \<Rightarrow> bool" where
  "hasExecutableContent w filePath ext =
     (if ext \<in> set [''.exe'', ''.dll'', ''.scr'', ''.com''] then False
      else case readFile w filePath of
             Inl e \<Rightarrow> False
           | Inr content \<Rightarrow>
               (let b = header_buffer content
                in (b ! 0 = CHR 0x4D \<and> b ! 1 = CHR 0x5A)
                   \<or> (b ! 0 = CHR 0x7F \<and> b ! 1 = CHR 0x45 \<and> b ! 2 = CHR 0x4C \<and> b ! 3 = CHR 0x46)
                   \<or> (b ! 0 = CHR 0xFE \<and> b ! 1 = CHR 0xED \<and> b ! 2 = CHR 0xFA)
                   \<or> (b ! 0 = CHR 0xCF \<and> b ! 1 = CHR 0xFA \<and> b ! 2 = CHR 0xED)))"

text \<open>The outcome of the seven checks of \<^verbatim>\<open>analyze\<close> on one file.\<close>

record checks =
  extScore :: nat
  nameScore :: nat
  locationScore :: nat
  sizeScore :: nat
  attrScore :: nat
  doubleExt :: bool
  execContent :: bool

definition run_checks :: "platform \<Rightarrow> world \<Rightarrow> string \<Rightarrow> file_stats \<Rightarrow> checks" where
  "run_checks P w filePath st =
     \<lparr>extScore = checkSuspiciousExtension (toLowerCase (extname filePath)) (basename filePath),
      nameScore = checkSuspiciousFileName (basename filePath),
      locationScore = checkSuspiciousLocation filePath,
      sizeScore = checkSuspiciousSize (st_size st) (toLowerCase (extname filePath)),
      attrScore = checkFileAttributes P filePath (toLowerCase (extname filePath)),
      doubleExt = hasDoubleExtension (basename filePath),
      execContent = hasExecutableContent w filePath (toLowerCase (extname filePath))\<rparr>"

definition score_of :: "checks \<Rightarrow> nat" where
  "score_of c =
     (if 0 < extScore c then extScore c else 0)
     + (if 0 < nameScore c then nameScore c else 0)
     + (if 0 < locationScore c then locationScore c else 0)
     + (if 0 < sizeScore c then sizeScore c else 0)
     + (if 0 < attrScore c then attrScore c else 0)
     + (if doubleExt c then 20 else 0)
     + (if execContent c then 15 else 0)"

definition traits_of :: "string \<Rightarrow> checks \<Rightarrow> string list" where
  "traits_of ext c =
     (if 0 < extScore c then [''Suspicious extension: '' @ ext] else [])
     @ (if 0 < nameScore c then [''Suspicious file name pattern''] else [])
     @ (if 0 < locationScore c then [''Suspicious file location''] else [])
     @ (if 0 < sizeScore c then [''Unusual file size''] else [])
     @ (if 0 < attrScore c then [''Suspicious file attributes''] else [])
     @ (if doubleExt c then [''Double extension detected''] else [])
     @ (if execContent c then [''Executable content in non-executable file''] else [])"

fun join_str :: "string \<Rightarrow> string list \<Rightarrow> string" where
  "join_str sep [] = []"
| "join_str sep [x] = x"
| "join_str sep (x # y # ys) = x @ sep @ join_str sep (y # ys)"

definition sensitivity :: "config \<Rightarrow> string" where
  "sensitivity cfg = (if heuristicSensitivity cfg = [] then ''medium'' else heuristicSensitivity cfg)"

definition suspicionThresholds :: "string \<rightharpoonup> nat" where
  "suspicionThresholds = map_of [(''low'', 60), (''medium'', 40), (''high'', 25)]"

definition analyze_score :: "platform \<Rightarrow> world \<Rightarrow> string \<Rightarrow> file_stats \<Rightarrow> nat" where
  "analyze_score P w filePath st = score_of (run_checks P w filePath st)"

definition analyze :: "platform \<Rightarrow> config \<Rightarrow> world \<Rightarrow> string \<Rightarrow> file_stats \<Rightarrow> threat_info option" where
  "analyze P cfg w filePath st =
     (case suspicionThresholds (sensitivity cfg) of
        None \<Rightarrow> None
      | Some threshold \<Rightarrow>
          if threshold \<le> analyze_score P w filePath st
          then Some
            \<lparr>name = ''Heuristic Detection'', type_tag = ''suspicious'',
             severity = (if 70 \<le> analyze_score P w filePath st then ''high''
                         else if 50 \<le> analyze_score P w filePath st then ''medium''
                         else ''low''),
             description = ''Suspicious file detected (score: ''
                           @ dec (analyze_score P w filePath st) @ ''). Traits: ''
                           @ join_str '', '' (traits_of (toLowerCase (extname filePath))
                                                (run_checks P w filePath st)),
             method_tag = ''heuristic'',
             suspicionScore = Some (analyze_score P w filePath st),
             traits = traits_of (toLowerCase (extname filePath)) (run_checks P w filePath st)\<rparr>
          else None)"

section \<open>FileScanner\<close>

text \<open>
  Logging and the events emitted to listeners (\<^verbatim>\<open>progress\<close>, \<^verbatim>\<open>threat-found\<close>, \<^verbatim>\<open>scan-complete\<close>
  and the like) change neither the scanner nor the world and are left out. \<^verbatim>\<open>pause\<close> only
  delays the loop and is left out as well; \<^verbatim>\<open>stop\<close> is an input of the loop.
\<close>

record threat = sig_info +
  path :: string
  detectionMethod :: string
  t_fileSize :: nat
  detectedAt :: nat

record scan_stats =
  filesScanned :: nat
  threatsFound :: nat
  errors :: nat
  startTime :: "nat option"
  endTime :: "nat option"
  duration :: "int option"
  threats :: "threat list"

record scanner =
  db :: threat_db
  signatureDetector :: detector
  scanning :: bool
  paused :: bool
  stats :: scan_stats
  scanId :: "nat option"

definition fresh_stats :: "nat option \<Rightarrow> scan_stats" where
  "fresh_stats started =
     \<lparr>filesScanned = 0, threatsFound = 0, errors = 0, startTime = started, endTime = None,
      duration = None, threats = []\<rparr>"

definition new_scanner :: scanner where
  "new_scanner =
     \<lparr>db = new_db, signatureDetector = new_detector, scanning = False, paused = False,
      stats = fresh_stats None, scanId = None\<rparr>"

definition isExcluded :: "config \<Rightarrow> string \<Rightarrow> bool" where
  "isExcluded cfg filePath =
     (if toLowerCase (extname filePath) \<in> set (exclusions_extensions cfg) then True
      else if \<exists>excludedPath \<in> set (exclusions_paths cfg). startsWith filePath excludedPath then True
      else False)"

definition generateAllHashes :: "world \<Rightarrow> string \<Rightarrow> (error + hashes) \<times> world" where
  "generateAllHashes w filePath =
     (case readFile w filePath of
        Inl e \<Rightarrow> (Inl e, w\<lparr>hashed := hashed w @ [filePath]\<rparr>)
      | Inr content \<Rightarrow> (Inr (digests content), w\<lparr>hashed := hashed w @ [filePath]\<rparr>))"

definition make_threat :: "string \<Rightarrow> threat_info \<Rightarrow> file_stats \<Rightarrow> nat \<Rightarrow> threat" where
  "make_threat filePath ti st at =
     \<lparr>name = name ti, type_tag = type_tag ti, severity = severity ti,
      description = description ti,
      path = filePath, detectionMethod = method_tag ti, t_fileSize = st_size st, detectedAt = at\<rparr>"

definition handleThreatFound ::
  "world \<Rightarrow> scanner \<Rightarrow> string \<Rightarrow> threat_info \<Rightarrow> file_stats \<Rightarrow> threat \<times> world \<times> scanner" where
  "handleThreatFound w sc filePath ti st =
     (let t = make_threat filePath ti st (fst (now w));
          rec = recordThreatDetection (snd (now w)) (db sc) (scanId sc) (path t) (name t)
                  (type_tag t) (severity t) (detectionMethod t)
      in (t, fst rec,
          sc\<lparr>stats := (stats sc)\<lparr>threatsFound := threatsFound (stats sc) + 1,
                                  threats := threats (stats sc) @ [t]\<rparr>,
             db := snd rec\<rparr>))"

text \<open>The \<^verbatim>\<open>catch\<close> of \<^verbatim>\<open>scanFile\<close>: \<^verbatim>\<open>ENOENT\<close> and \<^verbatim>\<open>EACCES\<close> become "no threat", all else is rethrown.\<close>

definition scanFile_catch ::
  "error \<Rightarrow> world \<Rightarrow> scanner \<Rightarrow> (error + threat option) \<times> world \<times> scanner" where
  "scanFile_catch e w sc =
     (if e \<noteq> IOError ENOENT \<and> e \<noteq> IOError EACCES then (Inl e, w, sc) else (Inr None, w, sc))"

definition found :: "threat \<times> world \<times> scanner \<Rightarrow> (error + threat option) \<times> world \<times> scanner" where
  "found r = (Inr (Some (fst r)), snd r)"

definition heuristic_stage ::
  "platform \<Rightarrow> config \<Rightarrow> world \<Rightarrow> scanner \<Rightarrow> string \<Rightarrow> file_stats
     \<Rightarrow> (error + threat option) \<times> world \<times> scanner" where
  "heuristic_stage P cfg w sc filePath st =
     (if enableHeuristicAnalysis cfg
      then (case analyze P cfg w filePath st of
              Some ti \<Rightarrow> found (handleThreatFound w sc filePath ti st)
            | None \<Rightarrow> (Inr None, w, sc))
      else (Inr None, w, sc))"

definition signature_stage ::
  "platform \<Rightarrow> config \<Rightarrow> world \<Rightarrow> scanner \<Rightarrow> string \<Rightarrow> file_stats \<Rightarrow> hashes
     \<Rightarrow> (error + threat option) \<times> world \<times> scanner" where
  "signature_stage P cfg w sc filePath st h =
     (if enableSignatureScanning cfg
      then (case fst (detect P w (db sc) (signatureDetector sc) filePath h) of
              Inl e \<Rightarrow>
                scanFile_catch e w
                  (sc\<lparr>signatureDetector := snd (detect P w (db sc) (signatureDetector sc) filePath h)\<rparr>)
            | Inr (Some ti) \<Rightarrow>
                found (handleThreatFound w
                  (sc\<lparr>signatureDetector := snd (detect P w (db sc) (signatureDetector sc) filePath h)\<rparr>)
                  filePath ti st)
            | Inr None \<Rightarrow>
                heuristic_stage P cfg w
                  (sc\<lparr>signatureDetector := snd (detect P w (db sc) (signatureDetector sc) filePath h)\<rparr>)
                  filePath st)
      else heuristic_stage P cfg w sc filePath st)"

definition hash_stage ::
  "platform \<Rightarrow> config \<Rightarrow> world \<Rightarrow> scanner \<Rightarrow> string \<Rightarrow> file_stats
     \<Rightarrow> (error + threat option) \<times> world \<times> scanner" where
  "hash_stage P cfg w sc filePath st =
     (case fst (generateAllHashes w filePath) of
        Inl e \<Rightarrow> scanFile_catch e (snd (generateAllHashes w filePath)) sc
      | Inr h \<Rightarrow> signature_stage P cfg (snd (generateAllHashes w filePath)) sc filePath st h)"

definition scanFile ::
  "platform \<Rightarrow> config \<Rightarrow> world \<Rightarrow> scanner \<Rightarrow> string \<Rightarrow> (error + threat option) \<times> world \<times> scanner" where
  "scanFile P cfg w sc filePath =
     (case initialize w (db sc) of
        (Inl e, w1, d1) \<Rightarrow> scanFile_catch e w1 (sc\<lparr>db := d1\<rparr>)
      | (Inr ok, w1, d1) \<Rightarrow>
          (case stat w1 filePath of
             Inl e \<Rightarrow> scanFile_catch e w1 (sc\<lparr>db := d1\<rparr>)
           | Inr st \<Rightarrow>
               if maxFileSize cfg < st_size st then (Inr None, w1, sc\<lparr>db := d1\<rparr>)
               else if st_isDirectory st then (Inr None, w1, sc\<lparr>db := d1\<rparr>)
               else if isExcluded cfg filePath then (Inr None, w1, sc\<lparr>db := d1\<rparr>)
               else hash_stage P cfg w1 (sc\<lparr>db := d1\<rparr>) filePath st))"

text \<open>
  \<^verbatim>\<open>collectFiles\<close>: the \<^verbatim>\<open>glob\<close> call with \<^verbatim>\<open>nodir\<close> lists, in the order of the file system,
  the regular files below the scan path (only its direct children when not \<^verbatim>\<open>deep\<close>) none
  of whose components below the scan path starts with a dot, minus the paths given as
  \<^verbatim>\<open>ignore\<close>.
\<close>

definition slashes :: "string \<Rightarrow> string" where
  "slashes p = map (\<lambda>c. if c = CHR 0x5C then CHR ''/'' else c) p"

definition visible :: "string \<Rightarrow> bool" where
  "visible rel = (rel \<noteq> [] \<and> \<not> includes_str (CHR ''/'' # rel) ''/.'')"

definition glob_files :: "world \<Rightarrow> string \<Rightarrow> bool \<Rightarrow> string list \<Rightarrow> string list" where
  "glob_files w scanPath deep ignore =
     filter (\<lambda>q. startsWith q (scanPath @ ''/'')
                 \<and> visible (drop (length scanPath + 1) q)
                 \<and> (deep \<or> CHR ''/'' \<notin> set (drop (length scanPath + 1) q))
                 \<and> q \<notin> set ignore
                 \<and> \<not> is_dir w q)
            (map fst (files w))"

definition collectFiles :: "config \<Rightarrow> world \<Rightarrow> string list \<Rightarrow> bool \<Rightarrow> string list" where
  "collectFiles cfg w scanPaths deep =
     concat (map (\<lambda>scanPath.
                    if \<not> pathExists w scanPath then []
                    else glob_files w (slashes scanPath) deep (map slashes (exclusions_paths cfg)))
                 scanPaths)"

text \<open>
  The loop over \<^verbatim>\<open>filesToScan\<close>. \<open>stop_at = Some i\<close> says that \<^verbatim>\<open>stop()\<close> was called while the
  scan was suspended before the iteration with index \<open>i\<close>.
\<close>

definition count_scanned :: "scanner \<Rightarrow> scanner" where
  "count_scanned sc = sc\<lparr>stats := (stats sc)\<lparr>filesScanned := filesScanned (stats sc) + 1\<rparr>\<rparr>"

definition count_error :: "scanner \<Rightarrow> scanner" where
  "count_error sc = sc\<lparr>stats := (stats sc)\<lparr>errors := errors (stats sc) + 1\<rparr>\<rparr>"

definition observe_stop :: "nat option \<Rightarrow> nat \<Rightarrow> scanner \<Rightarrow> scanner" where
  "observe_stop stop_at i sc = (if stop_at = Some i then sc\<lparr>scanning := False\<rparr> else sc)"

definition after_file :: "(error + threat option) \<times> world \<times> scanner \<Rightarrow> world \<times> scanner" where
  "after_file r =
     (case fst r of
        Inr t \<Rightarrow> (fst (snd r), count_scanned (snd (snd r)))
      | Inl e \<Rightarrow> (fst (snd r), count_error (snd (snd r))))"

fun scan_loop ::
  "platform \<Rightarrow> config \<Rightarrow> nat option \<Rightarrow> nat \<Rightarrow> string list \<Rightarrow> world \<times> scanner \<Rightarrow> world \<times> scanner" where
  "scan_loop P cfg stop_at i [] ws = ws"
| "scan_loop P cfg stop_at i (f # fs) ws =
     (if \<not> scanning (observe_stop stop_at i (snd ws)) then (fst ws, observe_stop stop_at i (snd ws))
      else scan_loop P cfg stop_at (i + 1) fs
             (after_file (scanFile P cfg (fst ws) (observe_stop stop_at i (snd ws)) f)))"

definition resolve_paths :: "config \<Rightarrow> string \<Rightarrow> string list \<Rightarrow> string list option" where
  "resolve_paths cfg ty paths =
     (if ty = ''quick'' then Some (scanPaths_quick cfg)
      else if ty = ''full'' then Some (scanPaths_full cfg)
      else if ty = ''custom'' \<and> 0 < length paths then Some paths
      else None)"

definition elapsed :: "nat \<Rightarrow> nat option \<Rightarrow> int" where
  "elapsed ended started = (case started of None \<Rightarrow> int ended | Some t \<Rightarrow> int ended - int t)"

definition finish_scan :: "world \<times> scanner \<Rightarrow> (error + scan_stats) \<times> world \<times> scanner" where
  "finish_scan ws =
     (let ended = fst (now (fst ws));
          w1 = snd (now (fst ws));
          st = (stats (snd ws))\<lparr>endTime := Some ended,
                  duration := Some (elapsed ended (startTime (stats (snd ws))))\<rparr>;
          rec = (case scanId (snd ws) of
                   None \<Rightarrow> (w1, db (snd ws))
                 | Some i \<Rightarrow>
                     recordScanComplete w1 (db (snd ws)) i (filesScanned st) (threatsFound st)
                       (elapsed ended (startTime (stats (snd ws)))))
      in (Inr st, fst rec, (snd ws)\<lparr>stats := st, db := snd rec, scanning := False\<rparr>))"

definition scan ::
  "platform \<Rightarrow> config \<Rightarrow> world \<Rightarrow> scanner \<Rightarrow> string \<Rightarrow> string list \<Rightarrow> bool \<Rightarrow> nat option
     \<Rightarrow> (error + scan_stats) \<times> world \<times> scanner" where
  "scan P cfg w sc ty paths deep stop_at =
     (case initialize w (db sc) of
        (Inl e, w1, d1) \<Rightarrow> (Inl e, w1, sc\<lparr>scanning := True, db := d1\<rparr>)
      | (Inr ok, w1, d1) \<Rightarrow>
          (case recordScanStart w1 d1 ty of
             (new_id, w2, d2) \<Rightarrow>
               (let sc1 = sc\<lparr>scanning := True, db := d2, scanId := Some new_id,
                             stats := fresh_stats (Some (fst (now w2)))\<rparr>;
                    w3 = snd (now w2)
                in case resolve_paths cfg ty paths of
                     None \<Rightarrow> (Inl InvalidArgument, w3, sc1\<lparr>scanning := False\<rparr>)
                   | Some scanPaths \<Rightarrow>
                       finish_scan
                         (scan_loop P cfg stop_at 0 (collectFiles cfg w3 scanPaths deep) (w3, sc1)))))"

section \<open>QuarantineManager\<close>

text \<open>
  \<^verbatim>\<open>Buffer.from(s)\<close>: the UTF-8 encoding of a string given by its UTF-16 code units. A
  surrogate pair encodes the code point it denotes in four bytes; a surrogate without its
  partner is replaced by U+FFFD.
\<close>

definition utf8_cp :: "nat \<Rightarrow> string" where
  "utf8_cp c =
     (if c < 0x80 then [char_of c]
      else if c < 0x800 then [char_of (0xC0 + c div 64), char_of (0x80 + c mod 64)]
      else if c < 0x10000
        then [char_of (0xE0 + c div 4096), char_of (0x80 + c div 64 mod 64),
              char_of (0x80 + c mod 64)]
      else [char_of (0xF0 + c div 262144), char_of (0x80 + c div 4096 mod 64),
            char_of (0x80 + c div 64 mod 64), char_of (0x80 + c mod 64)])"

definition is_lead :: "16 word \<Rightarrow> bool" where
  "is_lead u = (0xD800 \<le> unat u \<and> unat u < 0xDC00)"

definition is_trail :: "16 word \<Rightarrow> bool" where
  "is_trail u = (0xDC00 \<le> unat u \<and> unat u < 0xE000)"

definition lone_unit :: "16 word \<Rightarrow> nat" where
  "lone_unit u = (if is_lead u \<or> is_trail u then 0xFFFD else unat u)"

fun utf8 :: "16 word list \<Rightarrow> string" where
  "utf8 [] = []"
| "utf8 [u] = utf8_cp (lone_unit u)"
| "utf8 (u # l # us) =
     (if is_lead u \<and> is_trail l
      then utf8_cp (0x10000 + (unat u - 0xD800) * 1024 + (unat l - 0xDC00)) @ utf8 us
      else utf8_cp (lone_unit u) @ utf8 (l # us))"

text \<open>
  The constructor: \<^verbatim>\<open>Buffer.from(key.padEnd(32, '0').substring(0, 32))\<close>. Padding and
  truncation count code units, the buffer holds bytes: it has 32 of them only when the 32
  code units are all below 128.
\<close>

definition key_of :: "config \<Rightarrow> string" where
  "key_of cfg =
     utf8 (take 32 (encryptionKey cfg @ replicate (32 - length (encryptionKey cfg)) 0x30))"

definition quar_file :: "config \<Rightarrow> string \<Rightarrow> string" where
  "quar_file cfg q = path_join (quarantine_path cfg) (q @ ''.quar'')"

definition meta_file :: "config \<Rightarrow> string \<Rightarrow> string" where
  "meta_file cfg q = path_join (quarantine_path cfg) (q @ ''.json'')"

definition make_id :: "nat \<Rightarrow> string \<Rightarrow> string" where
  "make_id t r = ''quar_'' @ dec t @ ''_'' @ hex (map byte_of r)"

definition generateQuarantineId :: "world \<Rightarrow> string \<times> world" where
  "generateQuarantineId w =
     (make_id (fst (now w)) (fst (randomBytes 8 (snd (now w)))), snd (randomBytes 8 (snd (now w))))"

text \<open>
  \<^verbatim>\<open>createCipheriv\<close> and \<^verbatim>\<open>createDecipheriv\<close> for \<^verbatim>\<open>aes-256-cbc\<close> throw unless the IV has 16
  bytes and the key has 32. \<^verbatim>\<open>encryptFile\<close> draws its IV before it creates the cipher.
\<close>

definition encryptFile ::
  "platform \<Rightarrow> config \<Rightarrow> world \<Rightarrow> string \<Rightarrow> (error + string) \<times> world" where
  "encryptFile P cfg w content =
     (if length (key_of cfg) \<noteq> 32 then Inl KeyLengthError
      else Inr (fst (randomBytes 16 w)
                @ cipher_enc P (key_of cfg) (fst (randomBytes 16 w)) content),
      snd (randomBytes 16 w))"

definition decryptFile :: "platform \<Rightarrow> config \<Rightarrow> string \<Rightarrow> error + string" where
  "decryptFile P cfg encryptedContent =
     (if length (take 16 encryptedContent) \<noteq> 16 then Inl CryptoError
      else if length (key_of cfg) \<noteq> 32 then Inl KeyLengthError
      else case cipher_dec P (key_of cfg) (take 16 encryptedContent) (drop 16 encryptedContent) of
             None \<Rightarrow> Inl CryptoError
           | Some plain \<Rightarrow> Inr plain)"

text \<open>The metadata object literal of \<^verbatim>\<open>quarantineFile\<close>, for a file of \<open>n\<close> bytes at time \<open>t\<close>.\<close>

definition metadata_object ::
  "platform \<Rightarrow> string \<Rightarrow> string \<Rightarrow> nat \<Rightarrow> nat \<Rightarrow> string \<Rightarrow> json" where
  "metadata_object P q filePath n t content =
     JObj [(''id'', JStr q),
           (''originalPath'', JStr filePath),
           (''fileName'', JStr (basename filePath)),
           (''fileSize'', JNum (dec n)),
           (''quarantinedAt'', JStr (iso_string P t)),
           (''hash'', JStr (sha256 content))]"

definition write_metadata ::
  "platform \<Rightarrow> config \<Rightarrow> world \<Rightarrow> string \<Rightarrow> string \<Rightarrow> file_stats \<Rightarrow> string \<Rightarrow> (error + string) \<times> world" where
  "write_metadata P cfg w filePath q st content =
     (case writeFile (snd (now w)) (meta_file cfg q)
             (json_stringify P (metadata_object P q filePath (st_size st) (fst (now w)) content)) of
        Inl e \<Rightarrow> (Inl e, snd (now w))
      | Inr w1 \<Rightarrow> (case remove w1 filePath of
                     Inl e \<Rightarrow> (Inl e, w1)
                   | Inr w2 \<Rightarrow> (Inr q, w2)))"

definition store_encrypted ::
  "platform \<Rightarrow> config \<Rightarrow> world \<Rightarrow> string \<Rightarrow> string \<Rightarrow> file_stats \<Rightarrow> string \<Rightarrow> (error + string) \<times> world" where
  "store_encrypted P cfg w filePath q st content =
     (case fst (encryptFile P cfg w content) of
        Inl e \<Rightarrow> (Inl e, snd (encryptFile P cfg w content))
      | Inr encryptedContent \<Rightarrow>
          (case writeFile (snd (encryptFile P cfg w content)) (quar_file cfg q) encryptedContent of
             Inl e \<Rightarrow> (Inl e, snd (encryptFile P cfg w content))
           | Inr w1 \<Rightarrow> write_metadata P cfg w1 filePath q st content))"

definition quarantineFile :: "platform \<Rightarrow> config \<Rightarrow> world \<Rightarrow> string \<Rightarrow> (error + string) \<times> world" where
  "quarantineFile P cfg w filePath =
     (if \<not> pathExists w filePath then (Inl NotFound, w)
      else case stat w filePath of
             Inl e \<Rightarrow> (Inl e, w)
           | Inr st \<Rightarrow>
               (case readFile (snd (generateQuarantineId w)) filePath of
                  Inl e \<Rightarrow> (Inl e, snd (generateQuarantineId w))
                | Inr content \<Rightarrow>
                    store_encrypted P cfg (snd (generateQuarantineId w)) filePath
                      (fst (generateQuarantineId w)) st content))"

text \<open>
  Reading one of the properties \<^verbatim>\<open>originalPath\<close>, \<^verbatim>\<open>fileName\<close> and \<^verbatim>\<open>quarantinedAt\<close> of a
  parsed document: a \<^verbatim>\<open>TypeError\<close> on \<^verbatim>\<open>null\<close>, the member of that name on an object (the
  last one when the document repeats the name), and \<^verbatim>\<open>undefined\<close> on everything else.
\<close>

definition member :: "json \<Rightarrow> string \<Rightarrow> error + json option" where
  "member j k =
     (case j of
        JNull \<Rightarrow> Inl TypeError
      | JObj kvs \<Rightarrow> Inr (map_of (rev kvs) k)
      | _ \<Rightarrow> Inr None)"

text \<open>\<^verbatim>\<open>path.dirname(metadata.originalPath)\<close> throws a \<^verbatim>\<open>TypeError\<close> unless the property is a string.\<close>

definition original_path :: "json \<Rightarrow> error + string" where
  "original_path j =
     (case member j ''originalPath'' of
        Inl e \<Rightarrow> Inl e
      | Inr None \<Rightarrow> Inl TypeError
      | Inr (Some v) \<Rightarrow> (case v of JStr p \<Rightarrow> Inr p | _ \<Rightarrow> Inl TypeError))"

definition fallback_name :: "platform \<Rightarrow> json \<Rightarrow> string" where
  "fallback_name P j =
     ''Restored_'' @
     (case member j ''fileName'' of
        Inl e \<Rightarrow> []
      | Inr None \<Rightarrow> to_string P None
      | Inr (Some v) \<Rightarrow> (case v of JStr s \<Rightarrow> s | _ \<Rightarrow> to_string P (Some v)))"

definition restore_target :: "platform \<Rightarrow> config \<Rightarrow> world \<Rightarrow> json \<Rightarrow> string \<Rightarrow> string" where
  "restore_target P cfg w j p =
     (if \<not> pathExists w (dirname p)
      then path_join (path_join (homedir cfg) ''Desktop'') (fallback_name P j)
      else p)"

definition restore_write ::
  "config \<Rightarrow> world \<Rightarrow> string \<Rightarrow> string \<Rightarrow> string \<Rightarrow> (error + string) \<times> world" where
  "restore_write cfg w q restorePath plain =
     (case writeFile w restorePath plain of
        Inl e \<Rightarrow> (Inl e, w)
      | Inr w1 \<Rightarrow>
          (case remove w1 (quar_file cfg q) of
             Inl e \<Rightarrow> (Inl e, w1)
           | Inr w2 \<Rightarrow>
               (case remove w2 (meta_file cfg q) of
                  Inl e \<Rightarrow> (Inl e, w2)
                | Inr w3 \<Rightarrow> (Inr restorePath, w3))))"

definition readJson :: "platform \<Rightarrow> world \<Rightarrow> string \<Rightarrow> error + json" where
  "readJson P w p =
     (case readFile w p of
        Inl e \<Rightarrow> Inl e
      | Inr s \<Rightarrow> (case json_parse P s of None \<Rightarrow> Inl ParseError | Some j \<Rightarrow> Inr j))"

definition restoreFile :: "platform \<Rightarrow> config \<Rightarrow> world \<Rightarrow> string \<Rightarrow> (error + string) \<times> world" where
  "restoreFile P cfg w q =
     (if \<not> pathExists w (meta_file cfg q) \<or> \<not> pathExists w (quar_file cfg q)
      then (Inl NotFound, w)
      else case readJson P w (meta_file cfg q) of
             Inl e \<Rightarrow> (Inl e, w)
           | Inr j \<Rightarrow>
               (case readFile w (quar_file cfg q) of
                  Inl e \<Rightarrow> (Inl e, w)
                | Inr encryptedContent \<Rightarrow>
                    (case decryptFile P cfg encryptedContent of
                       Inl e \<Rightarrow> (Inl e, w)
                     | Inr plain \<Rightarrow>
                         (case original_path j of
                            Inl e \<Rightarrow> (Inl e, w)
                          | Inr p \<Rightarrow> restore_write cfg w q (restore_target P cfg w j p) plain))))"

text \<open>\<^verbatim>\<open>if (await fs.pathExists(p)) { await fs.remove(p); }\<close>\<close>

definition remove_if_exists :: "world \<Rightarrow> string \<Rightarrow> error + world" where
  "remove_if_exists w p = (if pathExists w p then remove w p else Inr w)"

definition permanentDelete :: "platform \<Rightarrow> config \<Rightarrow> world \<Rightarrow> string \<Rightarrow> (error + unit) \<times> world" where
  "permanentDelete P cfg w q =
     (case remove_if_exists w (quar_file cfg q) of
        Inl e \<Rightarrow> (Inl e, w)
      | Inr w1 \<Rightarrow>
          (case remove_if_exists w1 (meta_file cfg q) of
             Inl e \<Rightarrow> (Inl e, w1)
           | Inr w2 \<Rightarrow> (Inr (), w2)))"






section \<open>Concrete instances\<close>

text \<open>The code units of a string literal of the source whose characters are all below U+0100.\<close>

definition code_units :: "string \<Rightarrow> 16 word list" where
  "code_units s = map (\<lambda>c. of_nat (byte_of c)) s"

text \<open>
  The configuration of \<^verbatim>\<open>config.js\<close> on a POSIX host whose home directory is
  \<^verbatim>\<open>/home/user\<close>, with the application installed under \<^verbatim>\<open>/opt/av\<close> and no \<^verbatim>\<open>TEMP\<close> or
  \<^verbatim>\<open>TMP\<close> in the environment.
\<close>

definition source_config :: config where
  "source_config =
     \<lparr>quarantine_path = ''/opt/av/src/quarantine'',
      homedir = ''/home/user'',
      scanPaths_quick = [''/home/user/Downloads'', ''/home/user/Desktop'', ''/home/user/Documents'',
                         ''/tmp'', ''/tmp''],
      scanPaths_full = [''C:'' @ bslash, ''D:'' @ bslash, ''E:'' @ bslash],
      exclusions_paths = [''/opt/av/src/quarantine'',
                          ''C:'' @ bslash @ ''Windows'' @ bslash @ ''WinSxS'',
                          ''C:'' @ bslash @ ''$Recycle.Bin''],
      exclusions_extensions = [''.txt'', ''.md'', ''.pdf'', ''.jpg'', ''.jpeg'', ''.png'', ''.gif'',
                               ''.bmp'', ''.mp3'', ''.mp4'', ''.avi'', ''.mkv'', ''.mov''],
      maxFileSize = 500 * 1024 * 1024,
      enableSignatureScanning = True,
      enableHeuristicAnalysis = True,
      heuristicSensitivity = ''medium'',
      encryptionKey = code_units ''CHANGE_THIS_IN_PRODUCTION''\<rparr>"

text \<open>The same configuration with the key \<^verbatim>\<open>k\<close>, \<^verbatim>\<open>e\<close> with acute accent (U+00E9), \<^verbatim>\<open>y\<close>.\<close>

definition accented_key_config :: config where
  "accented_key_config = source_config\<lparr>encryptionKey := [0x6B, 0xE9, 0x79]\<rparr>"

text \<open>
  A platform on which the model can be run. Its regular-expression engine is that of
  JavaScript for sources without metacharacters under the flags \<^verbatim>\<open>gi\<close>: a case-insensitive
  search for the source as a substring. Its cipher, its JSON codec and its dates are
  stand-ins that are inverse to each other as the real ones are: the cipher prefixes key and
  IV; the codec writes an object as its members one after the other, each string with its
  length in front, and reads back what it wrote; a date is written as the decimal numeral of
  its time value. Its sort is insertion from the right, with \<^verbatim>\<open>NaN\<close> taken as zero and an
  exception of the comparator passed on.
\<close>

fun find_lit :: "string \<Rightarrow> string \<Rightarrow> nat \<Rightarrow> nat option" where
  "find_lit l [] i = (if l = [] then Some i else None)"
| "find_lit l (c # cs) i =
     (if startsWith (c # cs) l then Some (i + length l) else find_lit l cs (i + 1))"

definition literal_exec :: "string \<Rightarrow> string \<Rightarrow> nat \<Rightarrow> nat option" where
  "literal_exec src s i = find_lit (toLowerCase src) (drop i (toLowerCase s)) i"

definition demo_enc :: "string \<Rightarrow> string \<Rightarrow> string \<Rightarrow> string" where
  "demo_enc k iv m = k @ iv @ m"

definition demo_dec :: "string \<Rightarrow> string \<Rightarrow> string \<Rightarrow> string option" where
  "demo_dec k iv c =
     (if startsWith c (k @ iv) then Some (drop (length k + length iv) c) else None)"

definition put_nat :: "nat \<Rightarrow> string" where
  "put_nat n = replicate n (CHR ''#'') @ '':''"

definition put_str :: "string \<Rightarrow> string" where
  "put_str s = put_nat (length s) @ s"

definition get_nat :: "string \<Rightarrow> (nat \<times> string) option" where
  "get_nat s =
     (if startsWith (dropWhile (\<lambda>c. c = CHR ''#'') s) '':''
      then Some (length (takeWhile (\<lambda>c. c = CHR ''#'') s),
                 tl (dropWhile (\<lambda>c. c = CHR ''#'') s))
      else None)"

definition get_str :: "string \<Rightarrow> (string \<times> string) option" where
  "get_str s =
     (case get_nat s of
        None \<Rightarrow> None
      | Some (n, r) \<Rightarrow> if n \<le> length r then Some (take n r, drop n r) else None)"

fun demo_atom :: "json \<Rightarrow> string" where
  "demo_atom JNull = ''z''"
| "demo_atom (JBool b) = (if b then ''t'' else ''f'')"
| "demo_atom (JNum s) = ''n'' @ put_str s"
| "demo_atom (JStr s) = ''s'' @ put_str s"
| "demo_atom (JArr xs) = ''?''"
| "demo_atom (JObj kvs) = ''?''"

definition get_atom :: "string \<Rightarrow> (json \<times> string) option" where
  "get_atom s =
     (case s of
        [] \<Rightarrow> None
      | c # r \<Rightarrow>
          if c = CHR ''z'' then Some (JNull, r)
          else if c = CHR ''t'' then Some (JBool True, r)
          else if c = CHR ''f'' then Some (JBool False, r)
          else if c = CHR ''n'' then map_option (apfst JNum) (get_str r)
          else if c = CHR ''s'' then map_option (apfst JStr) (get_str r)
          else None)"

fun atomic :: "json \<Rightarrow> bool" where
  "atomic (JArr xs) = False"
| "atomic (JObj kvs) = False"
| "atomic j = True"

fun get_members :: "nat \<Rightarrow> string \<Rightarrow> (string \<times> json) list option" where
  "get_members 0 s = (if s = [] then Some [] else None)"
| "get_members (Suc n) s =
     (if s = [] then Some []
      else case get_str s of
             None \<Rightarrow> None
           | Some (k, r) \<Rightarrow>
               (case get_atom r of
                  None \<Rightarrow> None
                | Some (v, r') \<Rightarrow> map_option ((#) (k, v)) (get_members n r')))"

definition demo_stringify :: "json \<Rightarrow> string" where
  "demo_stringify j =
     (case j of
        JObj kvs \<Rightarrow> ''{'' @ concat (map (\<lambda>(k, v). put_str k @ demo_atom v) kvs)
      | _ \<Rightarrow> demo_atom j)"

definition demo_parse :: "string \<Rightarrow> json option" where
  "demo_parse s =
     (case s of
        [] \<Rightarrow> None
      | c # r \<Rightarrow>
          if c = CHR ''{'' then map_option JObj (get_members (length r) r)
          else (case get_atom s of
                  None \<Rightarrow> None
                | Some (v, r') \<Rightarrow> if r' = [] then Some v else None))"

definition undec :: "string \<Rightarrow> nat" where
  "undec s = foldl (\<lambda>n c. 10 * n + (byte_of c - 48)) 0 s"

definition digits_value :: "string \<Rightarrow> int option" where
  "digits_value s = (if s \<noteq> [] \<and> list_all is_digit s then Some (int (undec s)) else None)"

definition demo_date :: "json option \<Rightarrow> int option" where
  "demo_date v =
     (case v of
        None \<Rightarrow> None
      | Some j \<Rightarrow>
          (case j of
             JNull \<Rightarrow> Some 0
           | JBool b \<Rightarrow> Some (if b then 1 else 0)
           | JNum s \<Rightarrow> digits_value s
           | JStr s \<Rightarrow> digits_value s
           | _ \<Rightarrow> None))"

fun demo_text :: "json \<Rightarrow> string" where
  "demo_text JNull = ''null''"
| "demo_text (JBool b) = (if b then ''true'' else ''false'')"
| "demo_text (JNum s) = s"
| "demo_text (JStr s) = s"
| "demo_text (JArr xs) = join_str '','' (map (\<lambda>x. if x = JNull then [] else demo_text x) xs)"
| "demo_text (JObj kvs) = ''[object Object]''"

definition demo_to_string :: "json option \<Rightarrow> string" where
  "demo_to_string v = (case v of None \<Rightarrow> ''undefined'' | Some j \<Rightarrow> demo_text j)"

fun nan_zero :: "int option \<Rightarrow> int" where
  "nan_zero None = 0"
| "nan_zero (Some c) = c"

fun insert_by :: "('a \<Rightarrow> 'a \<Rightarrow> error + int option) \<Rightarrow> 'a \<Rightarrow> 'a list \<Rightarrow> error + 'a list" where
  "insert_by cmp x [] = Inr [x]"
| "insert_by cmp x (y # ys) =
     (case cmp x y of
        Inl e \<Rightarrow> Inl e
      | Inr c \<Rightarrow>
          if nan_zero c \<le> 0 then Inr (x # y # ys)
          else (case insert_by cmp x ys of Inl e \<Rightarrow> Inl e | Inr zs \<Rightarrow> Inr (y # zs)))"

fun js_sort :: "('a \<Rightarrow> 'a \<Rightarrow> error + int option) \<Rightarrow> 'a list \<Rightarrow> error + 'a list" where
  "js_sort cmp [] = Inr []"
| "js_sort cmp (x # xs) =
     (case js_sort cmp xs of Inl e \<Rightarrow> Inl e | Inr ys \<Rightarrow> insert_by cmp x ys)"

definition demo_platform :: platform where
  "demo_platform =
     \<lparr>regex_ok = (\<lambda>src. True), regex_exec = literal_exec,
      cipher_enc = demo_enc, cipher_dec = demo_dec,
      json_stringify = demo_stringify, json_parse = demo_parse,
      iso_string = dec, date_value = demo_date, to_string = demo_to_string,
      array_sort = js_sort,
      win32 = False, attrib = (\<lambda>p. None)\<rparr>"

text \<open>
  The library laws that the statements below rest on. Decryption inverts encryption under a
  32-byte key and a 16-byte IV. Reading the JSON text written for a metadata object gives that
  object back. Of \<^verbatim>\<open>Array.prototype.sort\<close>: a result is a rearrangement of the array, and with
  a comparator that is the difference of a numeric key the sort returns and its result is
  ordered by that key; for a comparator that is no consistent order, the order of the result
  is left to the implementation.
\<close>

definition cipher_inverts :: "platform \<Rightarrow> bool" where
  "cipher_inverts P =
     (\<forall>k iv m. length k = 32 \<longrightarrow> length iv = 16 \<longrightarrow> cipher_dec P k iv (cipher_enc P k iv m) = Some m)"

definition json_inverts :: "platform \<Rightarrow> bool" where
  "json_inverts P =
     (\<forall>q f n t content.
        json_parse P (json_stringify P (metadata_object P q f n t content))
        = Some (metadata_object P q f n t content))"


text \<open>
  A small world: the three scan directories of the quick scan, the quarantine directory,
  no database file yet, a clock that advances by one per reading and a byte source that
  counts upwards.
\<close>

definition demo_world :: "(string \<times> string) list \<Rightarrow> world" where
  "demo_world fs =
     \<lparr>files = fs,
      dirs = [''/'', ''/home'', ''/home/user'', ''/home/user/Downloads'', ''/home/user/Desktop'',
              ''/home/user/Documents'', ''/tmp'', ''/opt'', ''/opt/av'', ''/opt/av/src'',
              ''/opt/av/src/quarantine''],
      faults = [],
      locked = [],
      db_file = Absent,
      clock = (\<lambda>k. 1000 + k),
      ticks = 0,
      entropy = (\<lambda>k. char_of k),
      drawn = 0,
      hashed = []\<rparr>"

definition sample_world :: world where
  "sample_world = demo_world [(''/tmp/sample.bin'', ''hello'')]"

text \<open>
  Conditions under which a quarantine call is looked at: the file is a regular file in an
  existing directory that can be read and removed, the quarantine directory exists under a
  path without a trailing separator (the constructor creates it, \<^verbatim>\<open>path.join\<close> normalises
  it), and the freshly generated id names no object of the vault yet, nor a path that
  cannot be read or removed.
\<close>

definition regular_file :: "world \<Rightarrow> string \<Rightarrow> string \<Rightarrow> bool" where
  "regular_file w f content =
     (\<not> is_dir w f \<and> map_of (files w) f = Some content \<and> map_of (faults w) f = None
      \<and> map_of (locked w) f = None \<and> is_dir w (dirname f))"

definition vault_ready :: "config \<Rightarrow> world \<Rightarrow> bool" where
  "vault_ready cfg w =
     (is_dir w (quarantine_path cfg) \<and> quarantine_path cfg \<noteq> []
      \<and> last (quarantine_path cfg) \<noteq> CHR ''/'')"

definition fresh_id :: "config \<Rightarrow> world \<Rightarrow> string \<Rightarrow> bool" where
  "fresh_id cfg w q =
     (\<not> pathExists w (quar_file cfg q) \<and> \<not> pathExists w (meta_file cfg q)
      \<and> map_of (faults w) (quar_file cfg q) = None
      \<and> map_of (faults w) (meta_file cfg q) = None
      \<and> map_of (locked w) (quar_file cfg q) = None
      \<and> map_of (locked w) (meta_file cfg q) = None)"

text \<open>The metadata object and the IV that \<^verbatim>\<open>quarantineFile\<close> produces when started in \<open>w\<close>.\<close>

definition quarantined_meta :: "platform \<Rightarrow> world \<Rightarrow> string \<Rightarrow> string \<Rightarrow> json" where
  "quarantined_meta P w f content =
     metadata_object P (fst (generateQuarantineId w)) f (length content)
       (clock w (ticks w + 1)) content"

definition quarantined_iv :: "world \<Rightarrow> string" where
  "quarantined_iv w = map (entropy w) [drawn w + 8 ..< drawn w + 24]"

text \<open>
  An object of the vault can be deleted when it is missing or its removal does not fail.
\<close>

definition removable :: "world \<Rightarrow> string \<Rightarrow> bool" where
  "removable w p = (pathExists w p \<longrightarrow> map_of (locked w) p = None)"




text \<open>
  Vault directories. The first holds two quarantined files with their metadata. The second
  holds a metadata document next to a \<^verbatim>\<open>.json\<close> file that is not JSON. The third holds three
  metadata documents, listed oldest first, the second of which carries a \<^verbatim>\<open>quarantinedAt\<close>
  that is no date. The fourth holds two documents that are the JSON value \<^verbatim>\<open>null\<close>.
\<close>

definition vault_doc :: "string \<Rightarrow> string \<Rightarrow> string \<Rightarrow> json" where
  "vault_doc q f stamp =
     JObj [(''id'', JStr q), (''originalPath'', JStr f), (''fileName'', JStr (basename f)),
           (''fileSize'', JNum ''3''), (''quarantinedAt'', JStr stamp), (''hash'', JStr ''00'')]"

definition doc_old :: json where
  "doc_old = vault_doc ''quar_5_aa'' ''/tmp/a.bin'' ''5''"

definition doc_new :: json where
  "doc_new = vault_doc ''quar_9_bb'' ''/tmp/b.bin'' ''9''"


definition vault_world :: world where
  "vault_world = demo_world
     [(''/opt/av/src/quarantine/quar_5_aa.quar'', ''c1''),
      (''/opt/av/src/quarantine/quar_5_aa.json'', demo_stringify doc_old),
      (''/opt/av/src/quarantine/quar_9_bb.quar'', ''c2''),
      (''/opt/av/src/quarantine/quar_9_bb.json'', demo_stringify doc_new)]"




text \<open>
  Vault states for one id: only the metadata object is left, only the ciphertext object is
  left, and both are there but the ciphertext object cannot be removed.
\<close>

definition only_meta_world :: world where
  "only_meta_world = demo_world
     [(''/opt/av/src/quarantine/quar_5_aa.json'', demo_stringify doc_old)]"

definition only_quar_world :: world where
  "only_quar_world = demo_world
     [(''/opt/av/src/quarantine/quar_5_aa.quar'', ''c1'')]"

definition locked_vault_world :: world where
  "locked_vault_world =
     vault_world\<lparr>locked := [(''/opt/av/src/quarantine/quar_5_aa.quar'', EBUSY)]\<rparr>"

section \<open>File-system and path lemmas\<close>

lemma map_of_filter_None:
  "map_of al k = None \<Longrightarrow> map_of (filter Q al) k = None"
  by (induction al) auto

lemma map_of_filter_key_out:
  "(\<And>v. \<not> Q (k, v)) \<Longrightarrow> map_of (filter Q al) k = None"
  by (induction al) auto

lemma not_exists_unlink_same [simp]: "\<not> pathExists (unlink w p) p"
  by (auto simp: pathExists_def unlink_def is_dir_def AList.delete_conv' map_of_filter_key_out)

lemma not_exists_unlink_other:
  "\<not> pathExists w q \<Longrightarrow> \<not> pathExists (unlink w p) q"
  by (auto simp: pathExists_def unlink_def is_dir_def AList.delete_conv' map_of_filter_None)

lemma locked_unlink [simp]: "locked (unlink w p) = locked w"
  by (simp add: unlink_def)

lemma remove_missing: "\<not> pathExists w p \<Longrightarrow> remove w p = Inr w"
  by (simp add: remove_def)

lemma remove_present:
  "pathExists w p \<Longrightarrow> map_of (locked w) p = None \<Longrightarrow> remove w p = Inr (unlink w p)"
  by (simp add: remove_def)

lemma remove_locked:
  "pathExists w p \<Longrightarrow> map_of (locked w) p = Some e \<Longrightarrow> remove w p = Inl (IOError e)"
  by (simp add: remove_def)

lemma remove_if_exists_removable:
  "removable w p \<Longrightarrow> remove_if_exists w p = Inr (if pathExists w p then unlink w p else w)"
  by (simp add: remove_if_exists_def removable_def remove_present)

lemma removable_unlink: "removable w p \<Longrightarrow> removable (unlink w r) p"
  using not_exists_unlink_other[of w p r] by (auto simp: removable_def)

lemma permanentDelete_removable:
  assumes "removable w (quar_file cfg q)" and "removable w (meta_file cfg q)"
  shows "\<exists>w'. permanentDelete P cfg w q = (Inr (), w')
           \<and> \<not> pathExists w' (quar_file cfg q) \<and> \<not> pathExists w' (meta_file cfg q)"
proof -
  let ?w1 = "if pathExists w (quar_file cfg q) then unlink w (quar_file cfg q) else w"
  let ?w2 = "if pathExists ?w1 (meta_file cfg q) then unlink ?w1 (meta_file cfg q) else ?w1"
  have r1: "remove_if_exists w (quar_file cfg q) = Inr ?w1"
    using assms(1) by (rule remove_if_exists_removable)
  have "removable ?w1 (meta_file cfg q)"
    using assms(2) by (simp add: removable_unlink)
  then have r2: "remove_if_exists ?w1 (meta_file cfg q) = Inr ?w2"
    by (rule remove_if_exists_removable)
  have g1: "\<not> pathExists ?w1 (quar_file cfg q)" by simp
  have "\<not> pathExists ?w2 (quar_file cfg q)"
    using g1 not_exists_unlink_other[of ?w1 "quar_file cfg q" "meta_file cfg q"]
    by (cases "pathExists ?w1 (meta_file cfg q)") simp_all
  moreover have "\<not> pathExists ?w2 (meta_file cfg q)" by simp
  moreover have "permanentDelete P cfg w q = (Inr (), ?w2)"
    by (simp only: permanentDelete_def r1 r2 sum.case)
  ultimately show ?thesis by blast
qed

lemma permanentDelete_nothing_left:
  assumes "\<not> pathExists w (quar_file cfg q)" and "\<not> pathExists w (meta_file cfg q)"
  shows "permanentDelete P cfg w q = (Inr (), w)"
  using assms by (simp add: permanentDelete_def remove_if_exists_def)

lemma permanentDelete_locked:
  assumes "pathExists w (quar_file cfg q)" and "map_of (locked w) (quar_file cfg q) = Some e"
  shows "permanentDelete P cfg w q = (Inl (IOError e), w)"
  using assms by (simp add: permanentDelete_def remove_if_exists_def remove_locked)

lemma restore_missing_NotFound:
  "\<not> pathExists w (meta_file cfg q) \<or> \<not> pathExists w (quar_file cfg q)
     \<Longrightarrow> restoreFile P cfg w q = (Inl NotFound, w)"
  by (auto simp: restoreFile_def)

lemma digit_char_in: "digit_char d \<in> set ''0123456789''"
  unfolding digit_char_def by (rule nth_mem) simp

lemma dec_chars: "set (dec n) \<subseteq> set ''0123456789''"
proof (induction n rule: dec.induct)
  case (1 n)
  show ?case
  proof (cases "n < 10")
    case True
    then show ?thesis using digit_char_in[of n] by (subst dec.simps) simp
  next
    case False
    then show ?thesis using 1 digit_char_in[of "n mod 10"] by (subst dec.simps) simp
  qed
qed

lemma hex_digit_in: "hex_digit n \<in> set ''0123456789abcdef''"
  unfolding hex_digit_def by (rule nth_mem) simp

lemma hex_chars: "set (hex bs) \<subseteq> set ''0123456789abcdef''"
proof -
  define H where "H = set ''0123456789abcdef''"
  have "\<And>n. hex_digit n \<in> H" unfolding H_def by (rule hex_digit_in)
  then have "set (hex bs) \<subseteq> H" by (induction bs) (auto simp: hex_def hex_byte_def)
  then show ?thesis unfolding H_def .
qed

lemma make_id_no_sep: "CHR ''/'' \<notin> set (make_id t r)"
proof -
  have "CHR ''/'' \<notin> set (dec t)" using dec_chars[of t] by auto
  moreover have "CHR ''/'' \<notin> set (hex (map byte_of r))" using hex_chars[of "map byte_of r"] by auto
  ultimately show ?thesis by (simp add: make_id_def)
qed

lemma dirname_join:
  assumes "d \<noteq> []" "last d \<noteq> CHR ''/''" "n \<noteq> []" "CHR ''/'' \<notin> set n"
  shows "dirname (path_join d n) = d"
proof -
  obtain c d' where d: "d = c # d'" using assms(1) by (cases d) auto
  have tl: "rev (tl (path_join d n)) = rev n @ CHR ''/'' # rev d'"
    by (simp add: path_join_def d)
  have hdn: "\<not> is_sep (hd (rev n))"
    using assms(3,4) by (simp add: is_sep_def hd_rev) (metis last_in_set)
  have a: "dropWhile is_sep (rev n @ CHR ''/'' # rev d') = rev n @ CHR ''/'' # rev d'"
    using assms(3) hdn by (cases "rev n") auto
  have b: "dropWhile (\<lambda>c. \<not> is_sep c) (rev n @ CHR ''/'' # rev d') = CHR ''/'' # rev d'"
    using assms(4) by (auto simp: dropWhile_append3 is_sep_def dropWhile_append2)
  have notroot: "\<not> (is_sep c \<and> d' = [])" using assms(2) d by (auto simp: is_sep_def)
  show ?thesis
    unfolding dirname_def Let_def tl a b
    using notroot by (auto simp: path_join_def d)
qed

lemma now_simps [simp]:
  "fst (now w) = clock w (ticks w)"
  "snd (now w) = w\<lparr>ticks := ticks w + 1\<rparr>"
  by (simp_all add: now_def)

lemma randomBytes_simps [simp]:
  "fst (randomBytes n w) = map (entropy w) [drawn w ..< drawn w + n]"
  "snd (randomBytes n w) = w\<lparr>drawn := drawn w + n\<rparr>"
  by (simp_all add: randomBytes_def)

lemma generateQuarantineId_simps:
  "fst (generateQuarantineId w) = make_id (clock w (ticks w)) (map (entropy w) [drawn w ..< drawn w + 8])"
  "snd (generateQuarantineId w) = w\<lparr>ticks := ticks w + 1, drawn := drawn w + 8\<rparr>"
  by (simp_all add: generateQuarantineId_def)

lemma dirname_vault:
  assumes "quarantine_path cfg \<noteq> []" "last (quarantine_path cfg) \<noteq> CHR ''/''"
  shows "dirname (quar_file cfg (make_id t r)) = quarantine_path cfg"
    and "dirname (meta_file cfg (make_id t r)) = quarantine_path cfg"
  using assms make_id_no_sep[of t r]
  by (simp_all add: quar_file_def meta_file_def dirname_join)

lemma vault_files_differ [simp]:
  "quar_file cfg q \<noteq> meta_file cfg q" "meta_file cfg q \<noteq> quar_file cfg q"
  by (simp_all add: quar_file_def meta_file_def path_join_def)

lemma fs_frame [simp]:
  "is_dir (w\<lparr>ticks := t\<rparr>) p = is_dir w p"
  "is_dir (w\<lparr>drawn := d\<rparr>) p = is_dir w p"
  "is_dir (w\<lparr>files := fs\<rparr>) p = is_dir w p"
  "pathExists (w\<lparr>ticks := t\<rparr>) p = pathExists w p"
  "pathExists (w\<lparr>drawn := d\<rparr>) p = pathExists w p"
  "readFile (w\<lparr>ticks := t\<rparr>) p = readFile w p"
  "readFile (w\<lparr>drawn := d\<rparr>) p = readFile w p"
  "stat (w\<lparr>ticks := t\<rparr>) p = stat w p"
  "stat (w\<lparr>drawn := d\<rparr>) p = stat w p"
  by (auto simp: is_dir_def pathExists_def readFile_def stat_def split: option.splits)

lemma writeFile_ok:
  "\<not> is_dir w p \<Longrightarrow> is_dir w (dirname p)
     \<Longrightarrow> writeFile w p c = Inr (w\<lparr>files := AList.update p c (files w)\<rparr>)"
  by (simp add: writeFile_def)

lemma readFile_regular:
  "\<not> is_dir w p \<Longrightarrow> map_of (files w) p = Some c \<Longrightarrow> map_of (faults w) p = None
     \<Longrightarrow> readFile w p = Inr c"
  by (simp add: readFile_def)

lemma stat_regular:
  "\<not> is_dir w p \<Longrightarrow> map_of (files w) p = Some c
     \<Longrightarrow> stat w p = Inr \<lparr>st_size = length c, st_isDirectory = False\<rparr>"
  by (simp add: stat_def)

lemma remove_regular:
  "\<not> is_dir w p \<Longrightarrow> map_of (files w) p = Some c \<Longrightarrow> map_of (locked w) p = None
     \<Longrightarrow> remove w p = Inr (w\<lparr>files := AList.delete p (files w)\<rparr>)"
  by (simp add: remove_def unlink_def pathExists_def)

lemma utf8_ascii:
  "\<forall>u\<in>set us. unat u < 128 \<Longrightarrow> utf8 us = map (\<lambda>u. char_of (unat u)) us"
  by (induction us rule: utf8.induct)
     (auto simp: utf8_cp_def lone_unit_def is_lead_def is_trail_def)

lemma key_of_ascii:
  assumes "\<forall>u\<in>set (encryptionKey cfg). unat u < 128"
  shows "length (key_of cfg) = 32"
proof -
  let ?us = "take 32 (encryptionKey cfg @ replicate (32 - length (encryptionKey cfg)) 0x30)"
  have "\<forall>u\<in>set ?us. unat u < 128"
    using assms by (auto dest!: in_set_takeD)
  then have "utf8 ?us = map (\<lambda>u. char_of (unat u)) ?us" by (rule utf8_ascii)
  then show ?thesis by (simp add: key_of_def)
qed

lemma quarantine_succeeds:
  assumes key: "length (key_of cfg) = 32"
    and reg: "\<not> is_dir w f" "map_of (files w) f = Some content" "map_of (faults w) f = None"
             "map_of (locked w) f = None"
    and qdir: "is_dir w (quarantine_path cfg)" "quarantine_path cfg \<noteq> []"
              "last (quarantine_path cfg) \<noteq> CHR ''/''"
    and fresh: "\<not> pathExists w (quar_file cfg (fst (generateQuarantineId w)))"
               "\<not> pathExists w (meta_file cfg (fst (generateQuarantineId w)))"
  shows "quarantineFile P cfg w f =
          (Inr (fst (generateQuarantineId w)),
           w\<lparr>ticks := ticks w + 2, drawn := drawn w + 24,
             files := AList.delete f
               (AList.update (meta_file cfg (fst (generateQuarantineId w)))
                  (json_stringify P (quarantined_meta P w f content))
                  (AList.update (quar_file cfg (fst (generateQuarantineId w)))
                     (quarantined_iv w @ cipher_enc P (key_of cfg) (quarantined_iv w) content)
                     (files w)))\<rparr>)"
proof -
  let ?q = "fst (generateQuarantineId w)"
  have ex: "pathExists w f" using reg by (simp add: pathExists_def)
  have nd: "\<not> is_dir w (quar_file cfg ?q)" "\<not> is_dir w (meta_file cfg ?q)"
    using fresh by (simp_all add: pathExists_def)
  have ne: "f \<noteq> quar_file cfg ?q" "f \<noteq> meta_file cfg ?q"
    using ex fresh by auto
  have dn: "dirname (quar_file cfg ?q) = quarantine_path cfg"
           "dirname (meta_file cfg ?q) = quarantine_path cfg"
    using qdir(2,3) by (simp_all add: generateQuarantineId_simps dirname_vault)
  show ?thesis
    using key reg ex nd ne dn qdir(1)
    by (simp add: quarantineFile_def store_encrypted_def write_metadata_def encryptFile_def
        stat_regular readFile_regular writeFile_ok remove_def unlink_def pathExists_def
        quarantined_meta_def quarantined_iv_def generateQuarantineId_simps(2) add.commute
        AList.update_conv')
qed

lemma quarantine_bad_key:
  assumes key: "length (key_of cfg) \<noteq> 32"
    and reg: "\<not> is_dir w f" "map_of (files w) f = Some content" "map_of (faults w) f = None"
  shows "fst (quarantineFile P cfg w f) = Inl KeyLengthError"
proof -
  have ex: "pathExists w f" using reg by (simp add: pathExists_def)
  show ?thesis
    using key reg ex
    by (simp add: quarantineFile_def store_encrypted_def encryptFile_def
        stat_regular readFile_regular generateQuarantineId_simps(2))
qed

lemma quarantined_iv_length [simp]: "length (quarantined_iv w) = 16"
  by (simp add: quarantined_iv_def)

lemma decrypt_encrypt:
  assumes "cipher_inverts P" "length (key_of cfg) = 32" "length iv = 16"
  shows "decryptFile P cfg (iv @ cipher_enc P (key_of cfg) iv m) = Inr m"
  using assms by (simp add: decryptFile_def cipher_inverts_def)

lemma original_path_metadata [simp]:
  "original_path (metadata_object P q f n t content) = Inr f"
  by (simp add: original_path_def member_def metadata_object_def)

lemma restore_after_quarantine:
  assumes laws: "cipher_inverts P" "json_inverts P"
    and key: "length (key_of cfg) = 32"
    and reg: "\<not> is_dir w f" "map_of (files w) f = Some content" "map_of (faults w) f = None"
             "is_dir w (dirname f)"
    and fresh: "\<not> pathExists w qf" "\<not> pathExists w mf"
               "map_of (faults w) qf = None" "map_of (faults w) mf = None"
               "map_of (locked w) qf = None" "map_of (locked w) mf = None"
    and names: "qf = quar_file cfg q" "mf = meta_file cfg q"
    and w1: "w1 = w\<lparr>ticks := t, drawn := d,
               files := AList.delete f
                 (AList.update mf (json_stringify P j)
                    (AList.update qf (iv @ cipher_enc P (key_of cfg) iv content) (files w)))\<rparr>"
    and j: "j = metadata_object P q0 f n0 t0 c0" and iv: "length iv = 16"
  shows "fst (restoreFile P cfg w1 q) = Inr f
         \<and> readFile (snd (restoreFile P cfg w1 q)) f = Inr content
         \<and> readJson P w1 mf = Inr j"
proof -
  have ne: "f \<noteq> qf" "f \<noteq> mf" "qf \<noteq> mf"
    using reg(2) fresh(1,2) names by (auto simp: pathExists_def)
  have nd: "\<not> is_dir w qf" "\<not> is_dir w mf" using fresh by (simp_all add: pathExists_def)
  have d1: "is_dir w1 p = is_dir w p" for p by (simp add: w1 is_dir_def)
  have fl: "faults w1 = faults w" "locked w1 = locked w" by (simp_all add: w1)
  have mq: "map_of (files w1) qf = Some (iv @ cipher_enc P (key_of cfg) iv content)"
    using ne by (simp add: w1 AList.delete_conv' AList.update_conv')
  have mm: "map_of (files w1) mf = Some (json_stringify P j)"
    using ne by (simp add: w1 AList.delete_conv' AList.update_conv')
  have ex: "pathExists w1 qf" "pathExists w1 mf" using mq mm by (simp_all add: pathExists_def)
  have rq: "readFile w1 qf = Inr (iv @ cipher_enc P (key_of cfg) iv content)"
    using nd mq fresh(3) by (simp add: readFile_def d1 fl)
  have rm: "readFile w1 mf = Inr (json_stringify P j)"
    using nd mm fresh(4) by (simp add: readFile_def d1 fl)
  have rj: "readJson P w1 mf = Inr j"
    using laws(2) rm by (simp add: readJson_def json_inverts_def j)
  have op: "original_path j = Inr f" by (simp add: j)
  have tgt: "restore_target P cfg w1 j f = f"
    using reg(4) by (simp add: restore_target_def pathExists_def d1)
  let ?w2 = "w1\<lparr>files := AList.update f content (files w1)\<rparr>"
  let ?w3 = "?w2\<lparr>files := AList.delete qf (files ?w2)\<rparr>"
  let ?w4 = "?w3\<lparr>files := AList.delete mf (files ?w3)\<rparr>"
  have wr: "writeFile w1 f content = Inr ?w2"
    using reg(1,4) by (simp add: writeFile_def d1)
  have r1: "remove ?w2 qf = Inr ?w3"
    using nd(1) mq ne fresh(5)
    by (intro remove_regular[where c = "iv @ cipher_enc P (key_of cfg) iv content"])
       (simp_all add: d1 fl AList.update_conv')
  have r2: "remove ?w3 mf = Inr ?w4"
    using nd(2) mm ne fresh(6)
    by (intro remove_regular[where c = "json_stringify P j"])
       (simp_all add: d1 fl AList.update_conv' AList.delete_conv')
  have res: "restoreFile P cfg w1 q = (Inr f, ?w4)"
    using ex rj rq decrypt_encrypt[OF laws(1) key iv, of content] op
    by (simp add: restoreFile_def names[symmetric] restore_write_def tgt wr
        r1[simplified] r2[simplified])
  have "readFile ?w4 f = Inr content"
    using nd reg(1,3) ne
    by (simp add: readFile_def is_dir_def w1 AList.delete_conv' AList.update_conv')
  with res rj show ?thesis by simp
qed

lemma quarantine_stores_both:
  assumes key: "length (key_of cfg) = 32"
    and reg: "\<not> is_dir w f" "map_of (files w) f = Some content" "map_of (faults w) f = None"
             "map_of (locked w) f = None"
    and qdir: "is_dir w (quarantine_path cfg)" "quarantine_path cfg \<noteq> []"
              "last (quarantine_path cfg) \<noteq> CHR ''/''"
    and fresh: "\<not> pathExists w (quar_file cfg (fst (generateQuarantineId w)))"
               "\<not> pathExists w (meta_file cfg (fst (generateQuarantineId w)))"
  shows "pathExists (snd (quarantineFile P cfg w f)) (quar_file cfg (fst (generateQuarantineId w)))"
    and "pathExists (snd (quarantineFile P cfg w f)) (meta_file cfg (fst (generateQuarantineId w)))"
    and "locked (snd (quarantineFile P cfg w f)) = locked w"
proof -
  have ex: "pathExists w f" using reg by (simp add: pathExists_def)
  have ne: "f \<noteq> quar_file cfg (fst (generateQuarantineId w))"
           "f \<noteq> meta_file cfg (fst (generateQuarantineId w))"
    using ex fresh by auto
  note q = quarantine_succeeds[OF key reg qdir fresh, of P]
  show "pathExists (snd (quarantineFile P cfg w f)) (quar_file cfg (fst (generateQuarantineId w)))"
    using ne by (simp add: q pathExists_def AList.delete_conv' AList.update_conv')
  show "pathExists (snd (quarantineFile P cfg w f)) (meta_file cfg (fst (generateQuarantineId w)))"
    using ne by (simp add: q pathExists_def AList.delete_conv' AList.update_conv')
  show "locked (snd (quarantineFile P cfg w f)) = locked w"
    by (simp add: q)
qed

section \<open>The concrete platform satisfies the library laws\<close>

lemma takeWhile_hashes: "c \<noteq> CHR ''#'' \<Longrightarrow>
  takeWhile (\<lambda>c. c = CHR ''#'') (replicate n (CHR ''#'') @ c # r) = replicate n (CHR ''#'')"
  by (induction n) auto

lemma dropWhile_hashes: "c \<noteq> CHR ''#'' \<Longrightarrow>
  dropWhile (\<lambda>c. c = CHR ''#'') (replicate n (CHR ''#'') @ c # r) = c # r"
  by (induction n) auto

lemma get_put_nat [simp]: "get_nat (put_nat n @ r) = Some (n, r)"
  by (simp add: get_nat_def put_nat_def takeWhile_hashes dropWhile_hashes startsWith_def)

lemma get_put_str [simp]: "get_str (put_str s @ r) = Some (s, r)"
  by (simp add: get_str_def put_str_def)

lemma get_put_str_end [simp]: "get_str (put_str s) = Some (s, [])"
  using get_put_str[of s "[]"] by (simp del: get_put_str)

lemma put_str_nonempty [simp]: "put_str s \<noteq> []"
  by (simp add: put_str_def put_nat_def)

lemma get_atom_demo_atom: "atomic v \<Longrightarrow> get_atom (demo_atom v @ r) = Some (v, r)"
  by (cases v) (simp_all add: get_atom_def)

lemma demo_atom_nonempty [simp]: "demo_atom v \<noteq> []"
  by (cases v) simp_all

lemma get_members_nil [simp]: "get_members n [] = Some []"
  by (cases n) simp_all

lemma get_members_text:
  "list_all (\<lambda>(k, v). atomic v) kvs \<Longrightarrow> length kvs \<le> n
     \<Longrightarrow> get_members n (concat (map (\<lambda>(k, v). put_str k @ demo_atom v) kvs)) = Some kvs"
proof (induction kvs arbitrary: n)
  case Nil
  then show ?case by simp
next
  case (Cons kv kvs)
  obtain k v where kv: "kv = (k, v)" by (cases kv)
  obtain m where n: "n = Suc m" using Cons.prems(2) by (cases n) auto
  have a: "atomic v" and rest: "list_all (\<lambda>(k, v). atomic v) kvs"
    using Cons.prems(1) by (simp_all add: kv)
  have "get_members m (concat (map (\<lambda>(k, v). put_str k @ demo_atom v) kvs)) = Some kvs"
    using rest Cons.prems(2) by (intro Cons.IH) (simp_all add: n)
  then show ?case
    by (simp add: kv n get_atom_demo_atom[OF a])
qed

lemma members_text_length:
  "length kvs \<le> length (concat (map (\<lambda>(k, v). put_str k @ demo_atom v) kvs))"
proof (induction kvs)
  case Nil
  then show ?case by simp
next
  case (Cons kv kvs)
  obtain k v where kv: "kv = (k, v)" by (cases kv)
  have "1 \<le> length (put_str k)" by (simp add: Suc_le_eq)
  with Cons show ?case by (simp add: kv)
qed

lemma demo_parse_object:
  "list_all (\<lambda>(k, v). atomic v) kvs \<Longrightarrow> demo_parse (demo_stringify (JObj kvs)) = Some (JObj kvs)"
  by (simp add: demo_parse_def demo_stringify_def get_members_text members_text_length)


lemma demo_json_inverts: "json_inverts demo_platform"
  by (simp add: json_inverts_def demo_platform_def metadata_object_def demo_parse_object)

lemma demo_cipher_inverts: "cipher_inverts demo_platform"
  by (simp add: cipher_inverts_def demo_platform_def demo_enc_def demo_dec_def startsWith_def)






lemma replicate_numeral: "replicate (numeral k) x = x # replicate (pred_numeral k) x"
  by (simp add: numeral_eq_Suc)

lemma source_key: "length (key_of source_config) = 32"
  by (rule key_of_ascii)
     (simp add: source_config_def code_units_def byte_of_def unat_of_nat)

lemma accented_key: "length (key_of accented_key_config) = 33"
  by (simp add: key_of_def accented_key_config_def source_config_def replicate_numeral
      utf8_cp_def lone_unit_def is_lead_def is_trail_def)

lemma demo_world_sample: "regular_file sample_world ''/tmp/sample.bin'' ''hello''"
  by (simp add: regular_file_def sample_world_def demo_world_def is_dir_def dirname_def is_sep_def)

lemma source_vault_ready: "vault_ready source_config (demo_world fs)"
  by (simp add: vault_ready_def source_config_def demo_world_def is_dir_def)

lemma sample_vault_ready: "vault_ready source_config sample_world"
  unfolding sample_world_def by (rule source_vault_ready)

lemma demo_fresh: "fresh_id source_config sample_world (fst (generateQuarantineId sample_world))"
  by (simp add: fresh_id_def generateQuarantineId_simps pathExists_def is_dir_def sample_world_def
      demo_world_def source_config_def quar_file_def meta_file_def path_join_def make_id_def)

lemma upt_8: "[n ..< n + 8] = [n, n + 1, n + 2, n + 3, n + 4, n + 5, n + 6, n + 7]"
  by (simp add: numeral_eq_Suc upt_rec[of n] upt_rec[of "Suc n"] upt_rec[of "Suc (Suc n)"])

lemma upt_0_8: "[0 ..< 8] = [0, 1, 2, 3, 4, 5, 6, 7]"
  using upt_8[of 0] by simp

lemma dec_1000: "dec 1000 = ''1000''"
  by (simp add: dec.simps digit_char_def)

lemma demo_id:
  "fst (generateQuarantineId (demo_world fs)) = ''quar_1000_0001020304050607''"
  by (simp add: generateQuarantineId_simps demo_world_def make_id_def dec_1000 upt_0_8 hex_def hex_byte_def
      hex_digit_def byte_of_def)

lemma sample_id: "fst (generateQuarantineId sample_world) = ''quar_1000_0001020304050607''"
  unfolding sample_world_def by (rule demo_id)

lemma sample_quarantined:
  "fst (quarantineFile demo_platform source_config sample_world ''/tmp/sample.bin'')
   = Inr ''quar_1000_0001020304050607''"
  using quarantine_succeeds[of source_config sample_world "''/tmp/sample.bin''"
          "''hello''" demo_platform]
        source_key demo_world_sample sample_vault_ready demo_fresh
  by (simp add: regular_file_def vault_ready_def fresh_id_def sample_id)

lemma accented_key_rejected:
  "fst (quarantineFile demo_platform accented_key_config sample_world ''/tmp/sample.bin'')
   = Inl KeyLengthError"
  using demo_world_sample
  by (intro quarantine_bad_key[where content = "''hello''"])
     (simp_all add: accented_key regular_file_def)

lemma vault_path_eval:
  "quar_file source_config q = ''/opt/av/src/quarantine/'' @ q @ ''.quar''"
  "meta_file source_config q = ''/opt/av/src/quarantine/'' @ q @ ''.json''"
  by (simp_all add: quar_file_def meta_file_def path_join_def source_config_def)

lemma only_meta_state:
  "pathExists only_meta_world (meta_file source_config ''quar_5_aa'')"
  "\<not> pathExists only_meta_world (quar_file source_config ''quar_5_aa'')"
  "removable only_meta_world (meta_file source_config ''quar_5_aa'')"
  "removable only_meta_world (quar_file source_config ''quar_5_aa'')"
  by (simp_all add: vault_path_eval only_meta_world_def demo_world_def pathExists_def is_dir_def
      removable_def)

lemma only_quar_state:
  "\<not> pathExists only_quar_world (meta_file source_config ''quar_5_aa'')"
  "pathExists only_quar_world (quar_file source_config ''quar_5_aa'')"
  "removable only_quar_world (meta_file source_config ''quar_5_aa'')"
  "removable only_quar_world (quar_file source_config ''quar_5_aa'')"
  by (simp_all add: vault_path_eval only_quar_world_def demo_world_def pathExists_def is_dir_def
      removable_def)

lemma locked_vault_state:
  "pathExists locked_vault_world (quar_file source_config ''quar_5_aa'')"
  "map_of (locked locked_vault_world) (quar_file source_config ''quar_5_aa'') = Some EBUSY"
  by (simp_all add: vault_path_eval locked_vault_world_def vault_world_def demo_world_def
      pathExists_def is_dir_def)

section \<open>Quarantine and restore\<close>

text \<open>
  Claim C4. For every byte sequence \<open>content\<close> held by a readable regular file \<open>f\<close>:
  \<^verbatim>\<open>quarantineFile\<close> succeeds and returns an id, the metadata it stored carries the SHA-256
  digest of \<open>content\<close>, \<^verbatim>\<open>restoreFile\<close> of that id succeeds and restores to \<open>f\<close>, and
  afterwards \<open>f\<close> holds exactly \<open>content\<close> again (so its digest is the stored one). The
  configured key is assumed to encode to 32 bytes, as every key of ASCII characters does;
  with any other key \<^verbatim>\<open>createCipheriv\<close> throws and \<^verbatim>\<open>quarantineFile\<close> fails. The library is
  assumed to behave as documented: decryption inverts encryption for the stored IV and the
  32-byte key, and reading JSON inverts writing it. The id generated for the call is
  assumed to be fresh.
\<close>

theorem quarantine_restore_roundtrip:
  assumes "cipher_inverts P" and "json_inverts P"
    and "length (key_of cfg) = 32"
    and "regular_file w f content"
    and "vault_ready cfg w"
    and "fresh_id cfg w (fst (generateQuarantineId w))"
  shows "\<exists>q j. fst (quarantineFile P cfg w f) = Inr q
           \<and> readJson P (snd (quarantineFile P cfg w f)) (meta_file cfg q) = Inr j
           \<and> member j ''hash'' = Inr (Some (JStr (sha256 content)))
           \<and> fst (restoreFile P cfg (snd (quarantineFile P cfg w f)) q) = Inr f
           \<and> readFile (snd (restoreFile P cfg (snd (quarantineFile P cfg w f)) q)) f = Inr content"
proof -
  let ?q = "fst (generateQuarantineId w)"
  let ?j = "quarantined_meta P w f content"
  have q: "quarantineFile P cfg w f =
          (Inr ?q,
           w\<lparr>ticks := ticks w + 2, drawn := drawn w + 24,
             files := AList.delete f
               (AList.update (meta_file cfg ?q) (json_stringify P ?j)
                  (AList.update (quar_file cfg ?q)
                     (quarantined_iv w @ cipher_enc P (key_of cfg) (quarantined_iv w) content)
                     (files w)))\<rparr>)"
    using assms(4,5,6)
    by (intro quarantine_succeeds[OF assms(3)])
       (simp_all add: regular_file_def vault_ready_def fresh_id_def)
  have r: "fst (restoreFile P cfg (snd (quarantineFile P cfg w f)) ?q) = Inr f
         \<and> readFile (snd (restoreFile P cfg (snd (quarantineFile P cfg w f)) ?q)) f = Inr content
         \<and> readJson P (snd (quarantineFile P cfg w f)) (meta_file cfg ?q) = Inr ?j"
    using assms(4,6)
    by (intro restore_after_quarantine[OF assms(1,2,3), where w = w and qf = "quar_file cfg ?q"
          and t = "ticks w + 2" and d = "drawn w + 24" and iv = "quarantined_iv w"
          and ?q0.0 = ?q and ?n0.0 = "length content" and ?t0.0 = "clock w (ticks w + 1)"
          and ?c0.0 = content])
       (simp_all add: regular_file_def fresh_id_def q quarantined_meta_def)
  have "member ?j ''hash'' = Inr (Some (JStr (sha256 content)))"
    by (simp add: quarantined_meta_def metadata_object_def member_def)
  with q r show ?thesis by auto
qed

theorem roundtrip_witness:
  "\<exists>q j. fst (quarantineFile demo_platform source_config sample_world ''/tmp/sample.bin'') = Inr q
     \<and> readJson demo_platform
          (snd (quarantineFile demo_platform source_config sample_world ''/tmp/sample.bin''))
          (meta_file source_config q) = Inr j
     \<and> member j ''hash'' = Inr (Some (JStr (sha256 ''hello'')))
     \<and> fst (restoreFile demo_platform source_config
               (snd (quarantineFile demo_platform source_config sample_world ''/tmp/sample.bin'')) q)
         = Inr ''/tmp/sample.bin''
     \<and> readFile (snd (restoreFile demo_platform source_config
               (snd (quarantineFile demo_platform source_config sample_world ''/tmp/sample.bin'')) q))
          ''/tmp/sample.bin'' = Inr ''hello''"
  by (rule quarantine_restore_roundtrip[OF demo_cipher_inverts demo_json_inverts source_key
        demo_world_sample sample_vault_ready demo_fresh])

text \<open>
  Claim C8. After a \<^verbatim>\<open>quarantineFile\<close> that returned the id \<open>q\<close>, the ciphertext object and
  the metadata object of \<open>q\<close> both exist; \<^verbatim>\<open>permanentDelete\<close> of \<open>q\<close> then succeeds, neither
  object exists afterwards, and \<^verbatim>\<open>restoreFile\<close> of \<open>q\<close> fails with \<open>NotFound\<close>. Moreover, in
  every state of the vault and for every id, whichever of the two objects exist (both, only
  the ciphertext, only the metadata, or neither): \<^verbatim>\<open>permanentDelete\<close> succeeds unless the
  removal of an object that exists fails, neither object exists afterwards, \<^verbatim>\<open>restoreFile\<close>
  fails with \<open>NotFound\<close>, and \<^verbatim>\<open>permanentDelete\<close> again succeeds and changes nothing.
\<close>

theorem permanent_delete_idempotent:
  "(length (key_of cfg) = 32 \<and> regular_file w0 f content \<and> vault_ready cfg w0
      \<and> fresh_id cfg w0 (fst (generateQuarantineId w0))
    \<longrightarrow> (\<exists>q. fst (quarantineFile P cfg w0 f) = Inr q
           \<and> pathExists (snd (quarantineFile P cfg w0 f)) (quar_file cfg q)
           \<and> pathExists (snd (quarantineFile P cfg w0 f)) (meta_file cfg q)
           \<and> fst (permanentDelete P cfg (snd (quarantineFile P cfg w0 f)) q) = Inr ()
           \<and> \<not> pathExists (snd (permanentDelete P cfg (snd (quarantineFile P cfg w0 f)) q))
                 (quar_file cfg q)
           \<and> \<not> pathExists (snd (permanentDelete P cfg (snd (quarantineFile P cfg w0 f)) q))
                 (meta_file cfg q)
           \<and> fst (restoreFile P cfg
                    (snd (permanentDelete P cfg (snd (quarantineFile P cfg w0 f)) q)) q)
               = Inl NotFound))
   \<and> (removable w (quar_file cfg i) \<and> removable w (meta_file cfg i)
      \<longrightarrow> fst (permanentDelete P cfg w i) = Inr ()
          \<and> \<not> pathExists (snd (permanentDelete P cfg w i)) (quar_file cfg i)
          \<and> \<not> pathExists (snd (permanentDelete P cfg w i)) (meta_file cfg i)
          \<and> fst (restoreFile P cfg (snd (permanentDelete P cfg w i)) i) = Inl NotFound
          \<and> permanentDelete P cfg (snd (permanentDelete P cfg w i)) i
              = (Inr (), snd (permanentDelete P cfg w i)))"
proof -
  have general: "fst (permanentDelete P cfg v i) = Inr ()
          \<and> \<not> pathExists (snd (permanentDelete P cfg v i)) (quar_file cfg i)
          \<and> \<not> pathExists (snd (permanentDelete P cfg v i)) (meta_file cfg i)
          \<and> fst (restoreFile P cfg (snd (permanentDelete P cfg v i)) i) = Inl NotFound
          \<and> permanentDelete P cfg (snd (permanentDelete P cfg v i)) i
              = (Inr (), snd (permanentDelete P cfg v i))"
    if rem: "removable v (quar_file cfg i)" "removable v (meta_file cfg i)" for v i
  proof -
    obtain v' where d: "permanentDelete P cfg v i = (Inr (), v')"
      and gone: "\<not> pathExists v' (quar_file cfg i)" "\<not> pathExists v' (meta_file cfg i)"
      using permanentDelete_removable[OF rem, of P] by blast
    have "restoreFile P cfg v' i = (Inl NotFound, v')"
      using gone by (intro restore_missing_NotFound) simp
    moreover have "permanentDelete P cfg v' i = (Inr (), v')"
      using gone by (rule permanentDelete_nothing_left)
    ultimately show ?thesis using d gone by simp
  qed
  have after: "\<exists>q. fst (quarantineFile P cfg w0 f) = Inr q
           \<and> pathExists (snd (quarantineFile P cfg w0 f)) (quar_file cfg q)
           \<and> pathExists (snd (quarantineFile P cfg w0 f)) (meta_file cfg q)
           \<and> fst (permanentDelete P cfg (snd (quarantineFile P cfg w0 f)) q) = Inr ()
           \<and> \<not> pathExists (snd (permanentDelete P cfg (snd (quarantineFile P cfg w0 f)) q))
                 (quar_file cfg q)
           \<and> \<not> pathExists (snd (permanentDelete P cfg (snd (quarantineFile P cfg w0 f)) q))
                 (meta_file cfg q)
           \<and> fst (restoreFile P cfg
                    (snd (permanentDelete P cfg (snd (quarantineFile P cfg w0 f)) q)) q)
               = Inl NotFound"
    if key: "length (key_of cfg) = 32" and reg: "regular_file w0 f content"
      and vault: "vault_ready cfg w0" and fresh: "fresh_id cfg w0 (fst (generateQuarantineId w0))"
  proof -
    let ?q = "fst (generateQuarantineId w0)"
    let ?w1 = "snd (quarantineFile P cfg w0 f)"
    have r: "\<not> is_dir w0 f" "map_of (files w0) f = Some content" "map_of (faults w0) f = None"
        "map_of (locked w0) f = None"
      using reg by (simp_all add: regular_file_def)
    have v: "is_dir w0 (quarantine_path cfg)" "quarantine_path cfg \<noteq> []"
        "last (quarantine_path cfg) \<noteq> CHR ''/''"
      using vault by (simp_all add: vault_ready_def)
    have fr: "\<not> pathExists w0 (quar_file cfg ?q)" "\<not> pathExists w0 (meta_file cfg ?q)"
      using fresh by (simp_all add: fresh_id_def)
    have ret: "fst (quarantineFile P cfg w0 f) = Inr ?q"
      by (simp add: quarantine_succeeds[OF key r v fr])
    note both = quarantine_stores_both[OF key r v fr, of P]
    have "removable ?w1 (quar_file cfg ?q)" "removable ?w1 (meta_file cfg ?q)"
      using fresh by (simp_all add: removable_def both(3) fresh_id_def)
    from general[OF this] ret both(1,2) show ?thesis by blast
  qed
  from general after show ?thesis by blast
qed

theorem permanent_delete_witness:
  "fst (quarantineFile demo_platform source_config sample_world ''/tmp/sample.bin'')
     = Inr ''quar_1000_0001020304050607''
   \<and> pathExists (snd (quarantineFile demo_platform source_config sample_world ''/tmp/sample.bin''))
        (quar_file source_config ''quar_1000_0001020304050607'')
   \<and> pathExists (snd (quarantineFile demo_platform source_config sample_world ''/tmp/sample.bin''))
        (meta_file source_config ''quar_1000_0001020304050607'')
   \<and> fst (restoreFile demo_platform source_config
        (snd (permanentDelete demo_platform source_config
               (snd (quarantineFile demo_platform source_config sample_world ''/tmp/sample.bin''))
               ''quar_1000_0001020304050607''))
        ''quar_1000_0001020304050607'') = Inl NotFound
   \<and> pathExists only_meta_world (meta_file source_config ''quar_5_aa'')
   \<and> \<not> pathExists only_meta_world (quar_file source_config ''quar_5_aa'')
   \<and> fst (permanentDelete demo_platform source_config only_meta_world ''quar_5_aa'') = Inr ()
   \<and> \<not> pathExists (snd (permanentDelete demo_platform source_config only_meta_world ''quar_5_aa''))
          (meta_file source_config ''quar_5_aa'')
   \<and> \<not> pathExists only_quar_world (meta_file source_config ''quar_5_aa'')
   \<and> pathExists only_quar_world (quar_file source_config ''quar_5_aa'')
   \<and> fst (permanentDelete demo_platform source_config only_quar_world ''quar_5_aa'') = Inr ()
   \<and> \<not> pathExists (snd (permanentDelete demo_platform source_config only_quar_world ''quar_5_aa''))
          (quar_file source_config ''quar_5_aa'')
   \<and> permanentDelete demo_platform source_config locked_vault_world ''quar_5_aa''
       = (Inl (IOError EBUSY), locked_vault_world)"
proof -
  from permanent_delete_idempotent[of source_config sample_world "''/tmp/sample.bin''" "''hello''"
      demo_platform only_meta_world "''quar_5_aa''"]
  have a: "fst (quarantineFile demo_platform source_config sample_world ''/tmp/sample.bin'')
     = Inr ''quar_1000_0001020304050607''
   \<and> pathExists (snd (quarantineFile demo_platform source_config sample_world ''/tmp/sample.bin''))
        (quar_file source_config ''quar_1000_0001020304050607'')
   \<and> pathExists (snd (quarantineFile demo_platform source_config sample_world ''/tmp/sample.bin''))
        (meta_file source_config ''quar_1000_0001020304050607'')
   \<and> fst (restoreFile demo_platform source_config
        (snd (permanentDelete demo_platform source_config
               (snd (quarantineFile demo_platform source_config sample_world ''/tmp/sample.bin''))
               ''quar_1000_0001020304050607''))
        ''quar_1000_0001020304050607'') = Inl NotFound"
    and b: "fst (permanentDelete demo_platform source_config only_meta_world ''quar_5_aa'') = Inr ()
   \<and> \<not> pathExists (snd (permanentDelete demo_platform source_config only_meta_world ''quar_5_aa''))
          (meta_file source_config ''quar_5_aa'')"
    using source_key demo_world_sample sample_vault_ready demo_fresh sample_quarantined
      only_meta_state(3,4)
    by auto
  from permanent_delete_idempotent[of source_config sample_world "''/tmp/sample.bin''" "''hello''"
      demo_platform only_quar_world "''quar_5_aa''"]
  have c: "fst (permanentDelete demo_platform source_config only_quar_world ''quar_5_aa'') = Inr ()
   \<and> \<not> pathExists (snd (permanentDelete demo_platform source_config only_quar_world ''quar_5_aa''))
          (quar_file source_config ''quar_5_aa'')"
    using only_quar_state(3,4) by blast
  have d: "permanentDelete demo_platform source_config locked_vault_world ''quar_5_aa''
       = (Inl (IOError EBUSY), locked_vault_world)"
    by (rule permanentDelete_locked[OF locked_vault_state])
  from a b c d only_meta_state(1,2) only_quar_state(1,2) show ?thesis by blast
qed

section \<open>Heuristic score\<close>

lemma part_mono: "(a::nat) \<le> b \<Longrightarrow> (if 0 < a then a else 0) \<le> (if 0 < b then b else 0)"
  by simp

lemmas string_eval =
  toLowerCase_def lower_char_def startsWith_def endsWith_def extname_def basename_def is_sep_def
  is_digit_def is_hex_char_def is_word_char_def is_line_terminator_def

lemma checks_report:
  "run_checks demo_platform (demo_world []) ''/tmp/report.doc''
     \<lparr>st_size = 100, st_isDirectory = False\<rparr>
   = \<lparr>extScore = 0, nameScore = 0, locationScore = 0, sizeScore = 0, attrScore = 0,
      doubleExt = False, execContent = False\<rparr>"
  by (simp add: run_checks_def checkSuspiciousExtension_def checkSuspiciousFileName_def
      suspiciousPatterns_def checkSuspiciousLocation_def suspiciousLocations_def bslash_def
      checkSuspiciousSize_def checkFileAttributes_def hasDoubleExtension_def dot_word_before_def
      hasExecutableContent_def digit_then_exe_def ten_digits_exe_def demo_platform_def
      demo_world_def readFile_def is_dir_def string_eval)

lemma checks_keygen:
  "run_checks demo_platform (demo_world []) ''/tmp/keygen.doc.exe''
     \<lparr>st_size = 100, st_isDirectory = False\<rparr>
   = \<lparr>extScore = 15, nameScore = 20, locationScore = 0, sizeScore = 15, attrScore = 0,
      doubleExt = True, execContent = False\<rparr>"
  by (simp add: run_checks_def checkSuspiciousExtension_def checkSuspiciousFileName_def
      suspiciousPatterns_def checkSuspiciousLocation_def suspiciousLocations_def bslash_def
      checkSuspiciousSize_def checkFileAttributes_def hasDoubleExtension_def dot_word_before_def
      hasExecutableContent_def digit_then_exe_def ten_digits_exe_def demo_platform_def
      demo_world_def readFile_def is_dir_def string_eval)

text \<open>
  Claim C9. The suspicion score of \<^verbatim>\<open>analyze\<close> is monotonic in the outcome of its seven
  checks: if every check yields on a second input at least what it yields on a first one
  (for the two boolean checks: fires on the second if it fires on the first), the total
  score of the second input is at least that of the first. Making one more check fire
  while the others keep their results is the special case where six of the seven
  comparisons are equalities.
\<close>

theorem heuristic_score_monotone:
  assumes "extScore (run_checks P w f st) \<le> extScore (run_checks P' w' f' st')"
    and "nameScore (run_checks P w f st) \<le> nameScore (run_checks P' w' f' st')"
    and "locationScore (run_checks P w f st) \<le> locationScore (run_checks P' w' f' st')"
    and "sizeScore (run_checks P w f st) \<le> sizeScore (run_checks P' w' f' st')"
    and "attrScore (run_checks P w f st) \<le> attrScore (run_checks P' w' f' st')"
    and "doubleExt (run_checks P w f st) \<longrightarrow> doubleExt (run_checks P' w' f' st')"
    and "execContent (run_checks P w f st) \<longrightarrow> execContent (run_checks P' w' f' st')"
  shows "analyze_score P w f st \<le> analyze_score P' w' f' st'"
  unfolding analyze_score_def score_of_def
  using assms by (intro add_mono part_mono) auto

theorem heuristic_score_monotone_witness:
  "analyze_score demo_platform (demo_world []) ''/tmp/report.doc''
     \<lparr>st_size = 100, st_isDirectory = False\<rparr> = 0
   \<and> analyze_score demo_platform (demo_world []) ''/tmp/keygen.doc.exe''
       \<lparr>st_size = 100, st_isDirectory = False\<rparr> = 70
   \<and> analyze_score demo_platform (demo_world []) ''/tmp/report.doc''
       \<lparr>st_size = 100, st_isDirectory = False\<rparr>
     \<le> analyze_score demo_platform (demo_world []) ''/tmp/keygen.doc.exe''
          \<lparr>st_size = 100, st_isDirectory = False\<rparr>"
  using heuristic_score_monotone[of demo_platform "demo_world []" "''/tmp/report.doc''"
          "\<lparr>st_size = 100, st_isDirectory = False\<rparr>" demo_platform "demo_world []"
          "''/tmp/keygen.doc.exe''" "\<lparr>st_size = 100, st_isDirectory = False\<rparr>"]
  by (simp add: checks_report checks_keygen analyze_score_def score_of_def)

section \<open>Listing the vault\<close>


lemma demo_platform_parse [simp]: "json_parse demo_platform = demo_parse"
  by (simp add: demo_platform_def)

lemma demo_platform_sort [simp]: "array_sort demo_platform = js_sort"
  by (simp add: demo_platform_def)

lemma source_quarantine_path [simp]: "quarantine_path source_config = ''/opt/av/src/quarantine''"
  by (simp add: source_config_def)

lemma demo_parse_doc [simp]:
  "demo_parse (demo_stringify (vault_doc q f s)) = Some (vault_doc q f s)"
  by (simp add: vault_doc_def demo_parse_object)



























end
